theory Spec2Isabelle
  imports Main "HOL-Library.Log_Nat"
begin

section \<open>Values\<close>

text \<open>
  The validation engine of env-guardian-cli (\<^verbatim>\<open>src/core/validator.ts\<close>) works on
  JavaScript strings, numbers and booleans. Strings are modelled as lists of 8-bit code
  units (\<^typ>\<open>string\<close>); \<^verbatim>\<open>value.length\<close> is \<^const>\<open>length\<close>. Numbers are
  IEEE-754 doubles: the three non-finite values, the negative zero and the finite doubles,
  each finite double given by its exact rational value (\<open>Fin 0\<close> is the positive zero).
  The type has a value for every rational, the doubles among them; what is proved holds for
  all of them.

  The objects of the validator are plain objects, so a property lookup also finds the
  members of \<^verbatim>\<open>Object.prototype\<close>. \<open>Member n\<close> is the value of the property \<open>n\<close> of
  \<^verbatim>\<open>Object.prototype\<close>: a built-in function, or, for \<^verbatim>\<open>__proto__\<close>, the prototype
  object itself (what the getter returns on a plain object).
\<close>

datatype jsnum = NaN | PosInf | NegInf | NegZero | Fin rat

datatype jsval = Str string | Num jsnum | Bool bool | Member string

fun isNaN :: "jsnum \<Rightarrow> bool" where
  "isNaN NaN = True"
| "isNaN _ = False"


fun num_value :: "jsnum \<Rightarrow> rat" where
  "num_value (Fin q) = q"
| "num_value _ = 0"

text \<open>The relational operators \<^verbatim>\<open>x < y\<close>, \<^verbatim>\<open>x > y\<close>, \<^verbatim>\<open>x >= y\<close> and
  \<^verbatim>\<open>x <= y\<close> on numbers: every comparison with \<open>NaN\<close> is false.\<close>

fun num_lt :: "jsnum \<Rightarrow> jsnum \<Rightarrow> bool" where
  "num_lt NaN y = False"
| "num_lt x NaN = False"
| "num_lt PosInf y = False"
| "num_lt x PosInf = True"
| "num_lt x NegInf = False"
| "num_lt NegInf y = True"
| "num_lt x y = (num_value x < num_value y)"

definition num_gt :: "jsnum \<Rightarrow> jsnum \<Rightarrow> bool" where
  "num_gt x y = num_lt y x"

definition num_ge :: "jsnum \<Rightarrow> jsnum \<Rightarrow> bool" where
  "num_ge x y = (\<not> isNaN x \<and> \<not> isNaN y \<and> \<not> num_lt x y)"

definition num_le :: "jsnum \<Rightarrow> jsnum \<Rightarrow> bool" where
  "num_le x y = (\<not> isNaN x \<and> \<not> isNaN y \<and> \<not> num_lt y x)"

text \<open>\<^verbatim>\<open>Number.isInteger\<close>: a finite number without fractional part.\<close>

fun isInteger :: "jsnum \<Rightarrow> bool" where
  "isInteger (Fin q) = (of_int \<lfloor>q\<rfloor> = q)"
| "isInteger NegZero = True"
| "isInteger _ = False"

text \<open>The only exception that leaves the validator: the \<^verbatim>\<open>TypeError\<close> of a call on a
  value that is not a function, or of a built-in method called without a receiver. A function
  that can throw returns a sum, \<open>Inl\<close> the exception.\<close>

datatype exn = TypeError

section \<open>The host\<close>

text \<open>
  The validator calls services of the JavaScript runtime that are not code of the
  repository. They are parameters of the model:
  \<^item> \<open>Number\<close>: \<^verbatim>\<open>Number(value)\<close> on a string, the host's numeric parser;
  \<^item> \<open>NumberToString\<close>: the decimal rendering of a number in a template literal and in
    \<^verbatim>\<open>String(n)\<close>;
  \<^item> \<open>RegExp\<close>: \<^verbatim>\<open>new RegExp(pattern)\<close>; \<open>None\<close> is the SyntaxError the constructor
    throws on a pattern that does not compile, \<open>Some t\<close> a regular expression whose
    \<^verbatim>\<open>test\<close> method is \<open>t\<close> (the expressions are built without flags, so \<^verbatim>\<open>test\<close>
    keeps no position between calls);
  \<^item> \<open>URL\<close>: whether \<^verbatim>\<open>new URL(value)\<close> returns rather than throws;
  \<^item> \<open>JSON_parse\<close>: whether \<^verbatim>\<open>JSON.parse(value)\<close> returns rather than throws;
  \<^item> \<open>MemberToString\<close>: the string a member of \<^verbatim>\<open>Object.prototype\<close> converts to (the
    source text of a built-in function is chosen by the implementation).
\<close>

record host =
  Number :: "string \<Rightarrow> jsnum"
  NumberToString :: "jsnum \<Rightarrow> string"
  RegExp :: "string \<Rightarrow> (string \<Rightarrow> bool) option"
  URL :: "string \<Rightarrow> bool"
  JSON_parse :: "string \<Rightarrow> bool"
  MemberToString :: "string \<Rightarrow> string"

text \<open>String conversion of a value, as a template literal performs it.\<close>

fun ToString :: "host \<Rightarrow> jsval \<Rightarrow> string" where
  "ToString h (Str s) = s"
| "ToString h (Num n) = NumberToString h n"
| "ToString h (Bool b) = (if b then ''true'' else ''false'')"
| "ToString h (Member n) = MemberToString h n"

text \<open>\<^verbatim>\<open>String.prototype.toLowerCase\<close> on 8-bit code units: the letters A to Z and the
  Latin-1 capitals (0xC0 to 0xDE, the multiplication sign 0xD7 apart) move up by 32.\<close>

definition toLowerCaseChar :: "char \<Rightarrow> char" where
  "toLowerCaseChar c =
     (let n = (of_char c :: nat)
      in if (65 \<le> n \<and> n \<le> 90) \<or> (192 \<le> n \<and> n \<le> 222 \<and> n \<noteq> 215)
         then char_of (n + 32) else c)"

definition toLowerCase :: "string \<Rightarrow> string" where
  "toLowerCase s = map toLowerCaseChar s"

definition startsWith :: "string \<Rightarrow> string \<Rightarrow> bool" where
  "startsWith s p = (take (length p) s = p)"

text \<open>\<^verbatim>\<open>Array.prototype.join\<close> on an array of strings.\<close>

fun join :: "string \<Rightarrow> string list \<Rightarrow> string" where
  "join sep [] = []"
| "join sep [x] = x"
| "join sep (x # y # ys) = x @ sep @ join sep (y # ys)"

section \<open>Schema and result types (\<^verbatim>\<open>src/types/index.ts\<close>)\<close>

datatype VariableType = TString | TNumber | TBoolean

fun typeName :: "VariableType \<Rightarrow> string" where
  "typeName TString = ''string''"
| "typeName TNumber = ''number''"
| "typeName TBoolean = ''boolean''"

text \<open>A \<^verbatim>\<open>Variable\<close>. Optional properties are options, \<open>None\<close> for \<^verbatim>\<open>undefined\<close>.
  The properties \<^verbatim>\<open>min\<close> and \<^verbatim>\<open>max\<close> are the fields \<open>min_num\<close> and \<open>max_num\<close>.\<close>

record Variable =
  type :: VariableType
  format :: "string option"
  required :: bool
  default :: "jsval option"
  description :: "string option"
  enum :: "string list option"
  pattern :: "string option"
  min_num :: "jsnum option"
  max_num :: "jsnum option"
  minLength :: "jsnum option"
  maxLength :: "jsnum option"

text \<open>An \<^verbatim>\<open>EnvSchema\<close>: \<open>variables\<close> lists the entries of the \<^verbatim>\<open>variables\<close> object
  in the order of \<^verbatim>\<open>Object.entries\<close>.\<close>

record EnvSchema =
  schema_url :: "string option"
  variables :: "(string \<times> Variable) list"

datatype ErrorType = missing | invalid_type | invalid_format | invalid_enum | invalid_range

datatype WarningType = unused | default_applied | deprecated

text \<open>A \<^verbatim>\<open>ValidationError\<close>. The property \<^verbatim>\<open>received\<close> is declared a string; the
  validator stores the raw value there as it read it, which at run time is a string or a
  member of \<^verbatim>\<open>Object.prototype\<close>.\<close>

record ValidationError =
  variable :: string
  message :: string
  type :: ErrorType
  expected :: "string option"
  received :: "jsval option"

record ValidationWarning =
  variable :: string
  message :: string
  type :: WarningType

text \<open>A \<^verbatim>\<open>ValidationResult\<close>. \<open>parsed\<close> holds the own properties of the object
  \<^verbatim>\<open>parsed\<close>.\<close>

record ValidationResult =
  valid :: bool
  errors :: "ValidationError list"
  warnings :: "ValidationWarning list"
  parsed :: "string \<rightharpoonup> jsval"

record Options =
  strict :: "bool option"

section \<open>Plain objects\<close>

text \<open>The properties of \<^verbatim>\<open>Object.prototype\<close> (ECMA-262, with the accessor
  \<^verbatim>\<open>__proto__\<close> and the four legacy methods of its annex B, which Node.js has).\<close>

definition objectPrototype :: "string list" where
  "objectPrototype =
     [''constructor'', ''__defineGetter__'', ''__defineSetter__'', ''hasOwnProperty'',
      ''__lookupGetter__'', ''__lookupSetter__'', ''isPrototypeOf'', ''propertyIsEnumerable'',
      ''toString'', ''valueOf'', ''__proto__'', ''toLocaleString'']"

text \<open>The environment, a \<^verbatim>\<open>Record<string, string | undefined>\<close>: a plain object, as
  an object literal, \<^verbatim>\<open>dotenv.parse\<close> and the loaders of the repository build it. The
  list holds its own keys in the order of \<^verbatim>\<open>Object.keys\<close>, each with its value, a
  string or \<^verbatim>\<open>undefined\<close>. An object has each key once: the lists of a schema and of an
  environment are taken with distinct keys where a property counts entries.\<close>

type_synonym Env = "(string \<times> string option) list"

text \<open>What a lookup \<^verbatim>\<open>env[name]\<close> finds, when it is not \<^verbatim>\<open>undefined\<close>: a string of
  the environment, or the member of \<^verbatim>\<open>Object.prototype\<close> of that name.\<close>

datatype rawvalue = Text string | Inherited string

text \<open>\<^verbatim>\<open>env[name]\<close>: the own property if the object has one, otherwise the property
  inherited from \<^verbatim>\<open>Object.prototype\<close> if there is one, otherwise \<^verbatim>\<open>undefined\<close>.\<close>

definition env_get :: "Env \<Rightarrow> string \<Rightarrow> rawvalue option" where
  "env_get env name =
     (case map_of env name of
        Some v \<Rightarrow> map_option Text v
      | None \<Rightarrow> if name \<in> set objectPrototype then Some (Inherited name) else None)"

definition Object_keys :: "(string \<times> 'a) list \<Rightarrow> string list" where
  "Object_keys obj = map fst obj"

text \<open>The raw value as a value, and the string it converts to (in a template literal, in
  \<^verbatim>\<open>Number(value)\<close>, in \<^verbatim>\<open>regex.test(value)\<close>, in \<^verbatim>\<open>new URL(value)\<close> and in
  \<^verbatim>\<open>JSON.parse(value)\<close>).\<close>

fun toValue :: "rawvalue \<Rightarrow> jsval" where
  "toValue (Text s) = Str s"
| "toValue (Inherited n) = Member n"

fun textOf :: "host \<Rightarrow> rawvalue \<Rightarrow> string" where
  "textOf h (Text s) = s"
| "textOf h (Inherited n) = MemberToString h n"

text \<open>The property \<^verbatim>\<open>length\<close> of a member of \<^verbatim>\<open>Object.prototype\<close>: the number of
  parameters of the built-in function, which is 0 for three of them, 2 for two and 1 for
  the six others; the prototype object has none.\<close>

definition memberLength :: "string \<Rightarrow> nat option" where
  "memberLength n =
     (if n = ''__proto__'' then None
      else if n \<in> set [''toString'', ''valueOf'', ''toLocaleString''] then Some 0
      else if n \<in> set [''__defineGetter__'', ''__defineSetter__''] then Some 2
      else Some 1)"

text \<open>\<^verbatim>\<open>value.length\<close>, \<open>None\<close> for \<^verbatim>\<open>undefined\<close>.\<close>

fun valueLength :: "jsval \<Rightarrow> nat option" where
  "valueLength (Str s) = Some (length s)"
| "valueLength (Member n) = memberLength n"
| "valueLength _ = None"

text \<open>An assignment \<^verbatim>\<open>obj[name] = v\<close> to a plain object: it creates or updates the own
  property, except for the name \<^verbatim>\<open>__proto__\<close>, where it runs the setter of
  \<^verbatim>\<open>Object.prototype\<close>, which creates no property.\<close>

definition setProperty :: "(string \<rightharpoonup> jsval) \<Rightarrow> string \<Rightarrow> jsval \<Rightarrow> (string \<rightharpoonup> jsval)" where
  "setProperty obj name v = (if name = ''__proto__'' then obj else obj(name \<mapsto> v))"

section \<open>Format validators\<close>

text \<open>The character classes of the regular-expression literals.\<close>

definition isDigit :: "char \<Rightarrow> bool" where
  "isDigit c = (let n = (of_char c :: nat) in 48 \<le> n \<and> n \<le> 57)"

definition isUpper :: "char \<Rightarrow> bool" where
  "isUpper c = (let n = (of_char c :: nat) in 65 \<le> n \<and> n \<le> 90)"

definition isLower :: "char \<Rightarrow> bool" where
  "isLower c = (let n = (of_char c :: nat) in 97 \<le> n \<and> n \<le> 122)"

definition isHexDigit :: "char \<Rightarrow> bool" where
  "isHexDigit c = (let n = (of_char c :: nat)
     in (48 \<le> n \<and> n \<le> 57) \<or> (97 \<le> n \<and> n \<le> 102) \<or> (65 \<le> n \<and> n \<le> 70))"

text \<open>\<^verbatim>\<open>\s\<close>: tab, line feed, vertical tab, form feed, carriage return, space and the
  no-break space.\<close>

definition isSpace :: "char \<Rightarrow> bool" where
  "isSpace c = ((of_char c :: nat) \<in> {9, 10, 11, 12, 13, 32, 160})"

text \<open>\<^verbatim>\<open>/^[^\s@]+@[^\s@]+\.[^\s@]+$/\<close>: the text before the first \<open>@\<close> is not empty,
  the text after it has no further \<open>@\<close> and a dot that is neither its first nor its last
  character, and no character is white space.\<close>

definition email :: "string \<Rightarrow> bool" where
  "email v =
     (let notSpaceAt = (\<lambda>c. \<not> isSpace c \<and> c \<noteq> CHR ''@'');
          local = takeWhile (\<lambda>c. c \<noteq> CHR ''@'') v;
          rest = dropWhile (\<lambda>c. c \<noteq> CHR ''@'') v
      in local \<noteq> [] \<and> list_all notSpaceAt local \<and> rest \<noteq> [] \<and>
         list_all notSpaceAt (tl rest) \<and>
         (\<exists>i \<in> {1 ..< length (tl rest) - 1}. tl rest ! i = CHR ''.''))"

text \<open>\<^verbatim>\<open>/^[0-9a-f]{8}-[0-9a-f]{4}-[0-9a-f]{4}-[0-9a-f]{4}-[0-9a-f]{12}$/i\<close>\<close>

definition uuid :: "string \<Rightarrow> bool" where
  "uuid v =
     (length v = 36 \<and>
      (\<forall>i \<in> {0 ..< 36}. if i \<in> {8, 13, 18, 23} then v ! i = CHR ''-'' else isHexDigit (v ! i)))"

text \<open>\<^verbatim>\<open>/^[A-Za-z0-9+/]*={0,2}$/.test(value) && value.length % 4 === 0\<close>: the test
  is on the string of the value, the length is the property of the value itself; the
  remainder of \<^verbatim>\<open>undefined\<close> is \<open>NaN\<close>, which is not \<open>0\<close>.\<close>

definition base64 :: "host \<Rightarrow> rawvalue \<Rightarrow> bool" where
  "base64 h v =
     (let isB64 = (\<lambda>c. isUpper c \<or> isLower c \<or> isDigit c \<or> c = CHR ''+'' \<or> c = CHR ''/'')
      in dropWhile isB64 (textOf h v) \<in> {[], ''='', ''==''} \<and>
         (case valueLength (toValue v) of Some n \<Rightarrow> n mod 4 = 0 | None \<Rightarrow> False))"

text \<open>\<^verbatim>\<open>/^[0-9a-fA-F]+$/\<close> and \<^verbatim>\<open>/^[a-zA-Z0-9]+$/\<close>\<close>

definition hex :: "string \<Rightarrow> bool" where
  "hex v = (v \<noteq> [] \<and> list_all isHexDigit v)"

definition alphanumeric :: "string \<Rightarrow> bool" where
  "alphanumeric v = (v \<noteq> [] \<and> list_all (\<lambda>c. isLower c \<or> isUpper c \<or> isDigit c) v)"

definition port :: "host \<Rightarrow> string \<Rightarrow> bool" where
  "port h v =
     (let num = Number h v
      in \<not> isNaN num \<and> num_ge num (Fin 1) \<and> num_le num (Fin 65535) \<and> isInteger num)"

definition positive :: "host \<Rightarrow> string \<Rightarrow> bool" where
  "positive h v = (let num = Number h v in \<not> isNaN num \<and> num_gt num (Fin 0))"

definition integer :: "host \<Rightarrow> string \<Rightarrow> bool" where
  "integer h v = (let num = Number h v in \<not> isNaN num \<and> isInteger num)"

definition percentage :: "host \<Rightarrow> string \<Rightarrow> bool" where
  "percentage h v =
     (let num = Number h v in \<not> isNaN num \<and> num_ge num (Fin 0) \<and> num_le num (Fin 100))"

text \<open>A call \<^verbatim>\<open>validator(value)\<close> of a member of \<^verbatim>\<open>Object.prototype\<close>, which gets no
  receiver. \<^verbatim>\<open>Object(value)\<close> returns an object and \<^verbatim>\<open>toString\<close> a string that is not
  empty: both are truthy. \<^verbatim>\<open>isPrototypeOf\<close> returns \<^verbatim>\<open>false\<close> for an argument that is
  not an object before it looks at its receiver. The other methods convert the receiver to
  an object first, and the prototype object is not a function: these calls throw.\<close>

definition inheritedCall :: "string \<Rightarrow> rawvalue \<Rightarrow> exn + bool" where
  "inheritedCall n v =
     (if n = ''constructor'' \<or> n = ''toString'' then Inr True
      else if n = ''isPrototypeOf'' then
        (case v of Text s \<Rightarrow> Inr False | Inherited m \<Rightarrow> Inl TypeError)
      else Inl TypeError)"

text \<open>The lookup \<^verbatim>\<open>formatValidators[name]\<close> in the table, a plain object: the validator
  registered under the name, a member of \<^verbatim>\<open>Object.prototype\<close> for the names it has,
  \<open>None\<close> (\<^verbatim>\<open>undefined\<close>) for any other name. What is found is truthy and is called
  on the raw value.\<close>

definition formatValidators :: "host \<Rightarrow> string \<Rightarrow> (rawvalue \<Rightarrow> exn + bool) option" where
  "formatValidators h name =
     (if name = ''url'' then Some (\<lambda>v. Inr (URL h (textOf h v)))
      else if name = ''email'' then Some (\<lambda>v. Inr (email (textOf h v)))
      else if name = ''uuid'' then Some (\<lambda>v. Inr (uuid (textOf h v)))
      else if name = ''json'' then Some (\<lambda>v. Inr (JSON_parse h (textOf h v)))
      else if name = ''base64'' then Some (\<lambda>v. Inr (base64 h v))
      else if name = ''hex'' then Some (\<lambda>v. Inr (hex (textOf h v)))
      else if name = ''alphanumeric'' then Some (\<lambda>v. Inr (alphanumeric (textOf h v)))
      else if name = ''port'' then Some (\<lambda>v. Inr (port h (textOf h v)))
      else if name = ''positive'' then Some (\<lambda>v. Inr (positive h (textOf h v)))
      else if name = ''integer'' then Some (\<lambda>v. Inr (integer h (textOf h v)))
      else if name = ''percentage'' then Some (\<lambda>v. Inr (percentage h (textOf h v)))
      else if name \<in> set objectPrototype then Some (inheritedCall name)
      else None)"

section \<open>Type coercion\<close>

text \<open>The object \<^verbatim>\<open>coerceValue\<close> returns. On failure \<open>value\<close> is the raw value. The
  \<^verbatim>\<open>switch\<close> has a case for each of the three types; its \<^verbatim>\<open>default\<close> branch is never
  taken. A member of \<^verbatim>\<open>Object.prototype\<close> has no method \<^verbatim>\<open>toLowerCase\<close>: the call
  throws.\<close>

record Coerced =
  success :: bool
  "value" :: jsval
  error :: "string option"

definition dquote :: string where
  "dquote = [CHR 0x22]"

fun coerceValue :: "host \<Rightarrow> rawvalue \<Rightarrow> VariableType \<Rightarrow> exn + Coerced" where
  "coerceValue h v TString = Inr \<lparr>success = True, value = toValue v, error = None\<rparr>"
| "coerceValue h v TNumber =
     (let num = Number h (textOf h v)
      in if isNaN num
         then Inr \<lparr>success = False, value = toValue v,
                   error = Some (''Cannot convert '' @ dquote @ textOf h v @ dquote @
                     '' to number'')\<rparr>
         else Inr \<lparr>success = True, value = Num num, error = None\<rparr>)"
| "coerceValue h (Inherited n) TBoolean = Inl TypeError"
| "coerceValue h (Text v) TBoolean =
     (let lower = toLowerCase v
      in if lower \<in> set [''true'', ''1'', ''yes'', ''on'']
         then Inr \<lparr>success = True, value = Bool True, error = None\<rparr>
         else if lower \<in> set [''false'', ''0'', ''no'', ''off'']
         then Inr \<lparr>success = True, value = Bool False, error = None\<rparr>
         else Inr \<lparr>success = False, value = Str v,
                   error = Some (''Cannot convert '' @ dquote @ v @ dquote @
                     '' to boolean. Use true/false, 1/0, yes/no, or on/off'')\<rparr>)"

section \<open>Validation of one variable\<close>

text \<open>The object \<^verbatim>\<open>validateVariable\<close> returns: each property present or not.\<close>

record VariableResult =
  error :: "ValidationError option"
  warning :: "ValidationWarning option"
  parsed :: "jsval option"

definition failed :: "ValidationError \<Rightarrow> VariableResult" where
  "failed e = \<lparr>error = Some e, warning = None, parsed = None\<rparr>"

text \<open>The branch for a value that is \<^verbatim>\<open>undefined\<close> or the empty string.\<close>

definition validateMissing :: "host \<Rightarrow> string \<Rightarrow> Variable \<Rightarrow> VariableResult" where
  "validateMissing h name spec =
     (if required spec then
        (case default spec of
           Some d \<Rightarrow>
             \<lparr>error = None,
              warning = Some \<lparr>variable = name,
                               message = ''Using default value: '' @ ToString h d,
                               type = default_applied\<rparr>,
              parsed = Some d\<rparr>
         | None \<Rightarrow>
             failed \<lparr>ValidationError.variable = name,
                     message = ''Required variable is missing'',
                     type = missing, expected = None, received = None\<rparr>)
      else
        (case default spec of
           Some d \<Rightarrow>
             \<lparr>error = None,
              warning = Some \<lparr>variable = name,
                               message = ''Using default value: '' @ ToString h d,
                               type = default_applied\<rparr>,
              parsed = Some d\<rparr>
         | None \<Rightarrow> \<lparr>error = None, warning = None, parsed = None\<rparr>))"

text \<open>\<^verbatim>\<open>spec.enum.includes(value)\<close>: a string is included when it is one of the
  members, a member of \<^verbatim>\<open>Object.prototype\<close> never.\<close>

fun arrayIncludes :: "string list \<Rightarrow> rawvalue \<Rightarrow> bool" where
  "arrayIncludes members (Text s) = (s \<in> set members)"
| "arrayIncludes members (Inherited n) = False"

text \<open>Enum validation: \<^verbatim>\<open>spec.enum && spec.enum.length > 0\<close>, then
  \<^verbatim>\<open>spec.enum.includes(value)\<close>. The result is the error the block returns, if any.\<close>

definition enumValidation :: "string \<Rightarrow> rawvalue \<Rightarrow> Variable \<Rightarrow> ValidationError option" where
  "enumValidation name v spec =
     (case enum spec of
        None \<Rightarrow> None
      | Some members \<Rightarrow>
          if length members > 0 \<and> \<not> arrayIncludes members v
          then Some \<lparr>ValidationError.variable = name,
                     message = ''Value must be one of: '' @ join '', '' members,
                     type = invalid_enum,
                     expected = Some (join '' | '' members),
                     received = Some (toValue v)\<rparr>
          else None)"

text \<open>Format validation. \<^verbatim>\<open>if (spec.format)\<close> holds for a non-empty string. The
  \<^verbatim>\<open>try\<close> block encloses the branch of \<^verbatim>\<open>regex:\<close> only: an exception of a validator
  found in the table leaves \<^verbatim>\<open>validateVariable\<close>.\<close>

definition formatValidation ::
  "host \<Rightarrow> string \<Rightarrow> rawvalue \<Rightarrow> Variable \<Rightarrow> exn + ValidationError option" where
  "formatValidation h name v spec =
     (case format spec of
        None \<Rightarrow> Inr None
      | Some fmt \<Rightarrow>
          if fmt = [] then Inr None
          else if startsWith fmt ''regex:'' then
            (let pattern = drop 6 fmt
             in case RegExp h pattern of
                  Some test \<Rightarrow>
                    if \<not> test (textOf h v)
                    then Inr (Some \<lparr>ValidationError.variable = name,
                               message = ''Value does not match pattern: '' @ pattern,
                               type = invalid_format,
                               expected = Some pattern,
                               received = Some (toValue v)\<rparr>)
                    else Inr None
                | None \<Rightarrow>
                    Inr (Some \<lparr>ValidationError.variable = name,
                          message = ''Invalid regex pattern: '' @ pattern,
                          type = invalid_format,
                          expected = None, received = None\<rparr>))
          else
            (case formatValidators h fmt of
               Some validator \<Rightarrow>
                 (case validator v of
                    Inl e \<Rightarrow> Inl e
                  | Inr ok \<Rightarrow>
                      if \<not> ok
                      then Inr (Some \<lparr>ValidationError.variable = name,
                                 message = ''Invalid '' @ fmt @ '' format'',
                                 type = invalid_format,
                                 expected = Some fmt,
                                 received = Some (toValue v)\<rparr>)
                      else Inr None)
             | None \<Rightarrow> Inr None))"

text \<open>Range validation for numbers, on the coerced value \<^verbatim>\<open>coerced.value as number\<close>:
  the check of \<^verbatim>\<open>min\<close> first, then the check of \<^verbatim>\<open>max\<close>. Coercion to
  \<^verbatim>\<open>number\<close> returns a number, so the other values do not occur.\<close>

definition rangeValidation ::
  "host \<Rightarrow> string \<Rightarrow> jsval \<Rightarrow> Variable \<Rightarrow> ValidationError option" where
  "rangeValidation h name coerced spec =
     (case (Variable.type spec, coerced) of
        (TNumber, Num numValue) \<Rightarrow>
          (let belowMin =
                 (case min_num spec of
                    None \<Rightarrow> None
                  | Some mn \<Rightarrow>
                      if num_lt numValue mn
                      then Some \<lparr>ValidationError.variable = name,
                                 message = ''Value '' @ NumberToString h numValue @
                                   '' is less than minimum '' @ NumberToString h mn,
                                 type = invalid_range,
                                 expected = Some (''>= '' @ NumberToString h mn),
                                 received = Some (Str (NumberToString h numValue))\<rparr>
                      else None);
               aboveMax =
                 (case max_num spec of
                    None \<Rightarrow> None
                  | Some mx \<Rightarrow>
                      if num_gt numValue mx
                      then Some \<lparr>ValidationError.variable = name,
                                 message = ''Value '' @ NumberToString h numValue @
                                   '' is greater than maximum '' @ NumberToString h mx,
                                 type = invalid_range,
                                 expected = Some (''<= '' @ NumberToString h mx),
                                 received = Some (Str (NumberToString h numValue))\<rparr>
                      else None)
           in case belowMin of Some e \<Rightarrow> Some e | None \<Rightarrow> aboveMax)
      | _ \<Rightarrow> None)"

text \<open>Length validation for strings, on the coerced value \<^verbatim>\<open>coerced.value as string\<close>,
  which is the raw value. A comparison with a length that is \<^verbatim>\<open>undefined\<close> is false, so
  a value without a length passes.\<close>

definition lengthValidation ::
  "host \<Rightarrow> string \<Rightarrow> jsval \<Rightarrow> Variable \<Rightarrow> ValidationError option" where
  "lengthValidation h name coerced spec =
     (case (Variable.type spec, valueLength coerced) of
        (TString, Some n) \<Rightarrow>
          (let len = Fin (of_nat n);
               tooShort =
                 (case minLength spec of
                    None \<Rightarrow> None
                  | Some mn \<Rightarrow>
                      if num_lt len mn
                      then Some \<lparr>ValidationError.variable = name,
                                 message = ''Value length '' @ NumberToString h len @
                                   '' is less than minimum '' @ NumberToString h mn,
                                 type = invalid_range,
                                 expected = Some (''length >= '' @ NumberToString h mn),
                                 received = Some (Str (NumberToString h len))\<rparr>
                      else None);
               tooLong =
                 (case maxLength spec of
                    None \<Rightarrow> None
                  | Some mx \<Rightarrow>
                      if num_gt len mx
                      then Some \<lparr>ValidationError.variable = name,
                                 message = ''Value length '' @ NumberToString h len @
                                   '' is greater than maximum '' @ NumberToString h mx,
                                 type = invalid_range,
                                 expected = Some (''length <= '' @ NumberToString h mx),
                                 received = Some (Str (NumberToString h len))\<rparr>
                      else None)
           in case tooShort of Some e \<Rightarrow> Some e | None \<Rightarrow> tooLong)
      | _ \<Rightarrow> None)"

text \<open>Custom pattern validation. \<^verbatim>\<open>if (spec.pattern)\<close> holds for a non-empty string; a
  pattern that does not compile is caught and the check skipped.\<close>

definition patternValidation ::
  "host \<Rightarrow> string \<Rightarrow> rawvalue \<Rightarrow> Variable \<Rightarrow> ValidationError option" where
  "patternValidation h name v spec =
     (case pattern spec of
        None \<Rightarrow> None
      | Some pat \<Rightarrow>
          if pat = [] then None
          else
            (case RegExp h pat of
               Some test \<Rightarrow>
                 if \<not> test (textOf h v)
                 then Some \<lparr>ValidationError.variable = name,
                            message = ''Value does not match pattern: '' @ pat,
                            type = invalid_format,
                            expected = Some pat,
                            received = Some (toValue v)\<rparr>
                 else None
             | None \<Rightarrow> None))"

text \<open>The branch for a value that is present: coercion, then the five checks in the order
  of the source, the first error returned. An exception of the coercion or of the format
  check is not caught.\<close>

definition validatePresent ::
  "host \<Rightarrow> string \<Rightarrow> rawvalue \<Rightarrow> Variable \<Rightarrow> exn + VariableResult" where
  "validatePresent h name v spec =
     (case coerceValue h v (Variable.type spec) of
        Inl x \<Rightarrow> Inl x
      | Inr coerced \<Rightarrow>
          if \<not> success coerced then
            Inr (failed \<lparr>ValidationError.variable = name,
                    message = (case Coerced.error coerced of
                                 None \<Rightarrow> ''Type conversion failed''
                               | Some m \<Rightarrow> if m = [] then ''Type conversion failed'' else m),
                    type = invalid_type,
                    expected = Some (typeName (Variable.type spec)),
                    received = Some (toValue v)\<rparr>)
          else
            (case enumValidation name v spec of
               Some e \<Rightarrow> Inr (failed e)
             | None \<Rightarrow>
            (case formatValidation h name v spec of
               Inl x \<Rightarrow> Inl x
             | Inr (Some e) \<Rightarrow> Inr (failed e)
             | Inr None \<Rightarrow>
            (case rangeValidation h name (value coerced) spec of
               Some e \<Rightarrow> Inr (failed e)
             | None \<Rightarrow>
            (case lengthValidation h name (value coerced) spec of
               Some e \<Rightarrow> Inr (failed e)
             | None \<Rightarrow>
            (case patternValidation h name v spec of
               Some e \<Rightarrow> Inr (failed e)
             | None \<Rightarrow>
                 Inr \<lparr>error = None, warning = None, parsed = Some (value coerced)\<rparr>))))))"

text \<open>\<^verbatim>\<open>validateVariable\<close>: the branch for a missing value when the value is
  \<^verbatim>\<open>undefined\<close> or \<^verbatim>\<open>''\<close>, the branch for a present value otherwise.\<close>

definition validateVariable ::
  "host \<Rightarrow> string \<Rightarrow> rawvalue option \<Rightarrow> Variable \<Rightarrow> exn + VariableResult" where
  "validateVariable h name v spec =
     (case v of
        None \<Rightarrow> Inr (validateMissing h name spec)
      | Some raw \<Rightarrow> if raw = Text [] then Inr (validateMissing h name spec)
                    else validatePresent h name raw spec)"

section \<open>Validation of an environment\<close>

text \<open>\<^verbatim>\<open>isSystemEnvVar\<close>: the key starts with, or is, one of the listed names.\<close>

definition systemVars :: "string list" where
  "systemVars =
     [''PATH'', ''HOME'', ''USER'', ''SHELL'', ''TERM'', ''LANG'', ''LC_ALL'', ''PWD'',
      ''OLDPWD'', ''HOSTNAME'', ''LOGNAME'', ''EDITOR'', ''VISUAL'', ''_'', ''SHLVL'',
      ''XDG_'', ''SSH_'', ''GPG_'', ''DISPLAY'', ''COLORTERM'']"

definition isSystemEnvVar :: "string \<Rightarrow> bool" where
  "isSystemEnvVar key = list_ex (\<lambda>prefix. startsWith key prefix \<or> key = prefix) systemVars"

text \<open>The first loop of \<^verbatim>\<open>validate\<close>, over the entries of the schema. The state is the
  three local collections \<^verbatim>\<open>errors\<close>, \<^verbatim>\<open>warnings\<close> and \<^verbatim>\<open>parsed\<close>. An exception of
  \<^verbatim>\<open>validateVariable\<close> ends the loop and the call.\<close>

type_synonym Collected = "ValidationError list \<times> ValidationWarning list \<times> (string \<rightharpoonup> jsval)"

fun validateEntries ::
  "host \<Rightarrow> Env \<Rightarrow> (string \<times> Variable) list \<Rightarrow> Collected \<Rightarrow> exn + Collected" where
  "validateEntries h env [] st = Inr st"
| "validateEntries h env ((name, spec) # rest) (errs, warns, vals) =
     (case validateVariable h name (env_get env name) spec of
        Inl x \<Rightarrow> Inl x
      | Inr result \<Rightarrow>
          (let errs' = (case VariableResult.error result of
                          Some e \<Rightarrow> errs @ [e] | None \<Rightarrow> errs);
               warns' = (case warning result of
                           Some w \<Rightarrow> warns @ [w] | None \<Rightarrow> warns);
               vals' = (case VariableResult.parsed result of
                          Some p \<Rightarrow> setProperty vals name p | None \<Rightarrow> vals)
           in validateEntries h env rest (errs', warns', vals')))"

text \<open>The second loop, in strict mode, over the keys of the environment, and the warning it
  pushes for a key.\<close>

definition unusedWarning :: "string \<Rightarrow> ValidationWarning" where
  "unusedWarning key =
     \<lparr>variable = key, message = ''Variable not defined in schema'', type = unused\<rparr>"

fun unusedScan ::
  "string list \<Rightarrow> string list \<Rightarrow> ValidationWarning list \<Rightarrow> ValidationWarning list" where
  "unusedScan schemaKeys [] warns = warns"
| "unusedScan schemaKeys (key # keys) warns =
     (if isSystemEnvVar key then unusedScan schemaKeys keys warns
      else if key \<notin> set schemaKeys
      then unusedScan schemaKeys keys (warns @ [unusedWarning key])
      else unusedScan schemaKeys keys warns)"

definition validate ::
  "host \<Rightarrow> EnvSchema \<Rightarrow> Env \<Rightarrow> Options \<Rightarrow> exn + ValidationResult" where
  "validate h schema env options =
     (case validateEntries h env (variables schema) ([], [], Map.empty) of
        Inl x \<Rightarrow> Inl x
      | Inr (errs, warns, vals) \<Rightarrow>
          (let warns' =
                 (if strict options = Some True
                  then unusedScan (Object_keys (variables schema)) (Object_keys env) warns
                  else warns)
           in Inr \<lparr>valid = (length errs = 0), errors = errs, warnings = warns',
                    parsed = vals\<rparr>))"

text \<open>\<^verbatim>\<open>isValid\<close> calls \<^verbatim>\<open>validate\<close> without options and returns the property
  \<^verbatim>\<open>valid\<close> of its result.\<close>

definition isValid :: "host \<Rightarrow> EnvSchema \<Rightarrow> Env \<Rightarrow> exn + bool" where
  "isValid h schema env =
     (case validate h schema env \<lparr>strict = None\<rparr> of
        Inl x \<Rightarrow> Inl x
      | Inr result \<Rightarrow> Inr (valid result))"

section \<open>A reference host\<close>

text \<open>
  An executable host, for running the model on concrete inputs. \<open>Number\<close>,
  \<open>NumberToString\<close> and \<open>JSON_parse\<close> follow ECMA-262; \<open>RegExp\<close> covers the fragment
  of the pattern language described below; \<open>URL\<close> is an approximation. The theorems
  about the validator hold for every host; the reference host instantiates them.
\<close>

subsection \<open>Numbers from strings\<close>

text \<open>\<^verbatim>\<open>StringToNumber\<close> of ECMA-262. White space is trimmed, the empty string is
  \<open>+0\<close>, a literal in base 16, 8 or 2 takes no sign, a decimal literal is an optional
  sign before \<^verbatim>\<open>Infinity\<close> or digits with an optional fraction and exponent, and
  everything else is \<open>NaN\<close>.\<close>

definition trimString :: "string \<Rightarrow> string" where
  "trimString s = rev (dropWhile isSpace (rev (dropWhile isSpace s)))"

definition digitValue :: "char \<Rightarrow> int" where
  "digitValue c =
     (let n = (of_char c :: int)
      in if 48 \<le> n \<and> n \<le> 57 then n - 48
         else if 97 \<le> n \<and> n \<le> 122 then n - 87
         else n - 55)"

definition digitsValue :: "int \<Rightarrow> string \<Rightarrow> int" where
  "digitsValue base ds = foldl (\<lambda>a c. a * base + digitValue c) 0 ds"

text \<open>The double nearest to the positive rational \<open>num / den\<close>, ties to the even
  significand. \<open>e\<close> is the binary exponent of the rational, \<open>p\<close> the exponent of the
  unit in the last place (\<open>- 1074\<close> for the subnormal numbers), \<open>n\<close> the rounded
  significand. A result of \<open>2 ^ 1024\<close> or more is infinite.\<close>

definition roundToDouble :: "bool \<Rightarrow> int \<Rightarrow> int \<Rightarrow> jsnum" where
  "roundToDouble neg num den =
     (if num \<le> 0 \<or> den \<le> 0 then (if neg then NegZero else Fin 0)
      else
        (let e0 = bitlen num - bitlen den;
             e = (if (if 0 \<le> e0 then den * 2 ^ nat e0 \<le> num else den \<le> num * 2 ^ nat (- e0))
                  then e0 else e0 - 1);
             p = max e (- 1022) - 52;
             N = (if p < 0 then num * 2 ^ nat (- p) else num);
             D = (if p < 0 then den else den * 2 ^ nat p);
             q = N div D;
             r = N mod D;
             n = (if 2 * r < D \<or> (2 * r = D \<and> even q) then q else q + 1)
         in if 971 < p \<or> (p = 971 \<and> 2 ^ 53 \<le> n) then (if neg then NegInf else PosInf)
            else if n = 0 then (if neg then NegZero else Fin 0)
            else Fin ((if neg then - 1 else 1) * of_int n * 2 powi p)))"

text \<open>The exponent part of a decimal literal: empty, or \<open>e\<close> or \<open>E\<close>, an optional
  sign and digits.\<close>

definition parseExponent :: "string \<Rightarrow> int option" where
  "parseExponent s =
     (case s of
        [] \<Rightarrow> Some 0
      | c # r \<Rightarrow>
          if c = CHR ''e'' \<or> c = CHR ''E'' then
            (let neg = (r \<noteq> [] \<and> hd r = CHR ''-'');
                 ds = (if r \<noteq> [] \<and> (hd r = CHR ''+'' \<or> hd r = CHR ''-'') then tl r else r)
             in if ds \<noteq> [] \<and> list_all isDigit ds
                then Some ((if neg then - 1 else 1) * digitsValue 10 ds)
                else None)
          else None)"

text \<open>An unsigned decimal literal with the value \<open>a * 10 ^ k\<close>, as the pair
  \<open>(a, k)\<close>.\<close>

definition parseDecimal :: "string \<Rightarrow> (int \<times> int) option" where
  "parseDecimal s =
     (let ip = takeWhile isDigit s;
          r1 = dropWhile isDigit s;
          dot = (r1 \<noteq> [] \<and> hd r1 = CHR ''.'');
          fp = (if dot then takeWhile isDigit (tl r1) else []);
          r2 = (if dot then dropWhile isDigit (tl r1) else r1)
      in if ip = [] \<and> fp = [] then None
         else case parseExponent r2 of
                None \<Rightarrow> None
              | Some e \<Rightarrow> Some (digitsValue 10 (ip @ fp), e - int (length fp)))"

definition decimalValue :: "bool \<Rightarrow> string \<Rightarrow> jsnum" where
  "decimalValue neg s =
     (if s = ''Infinity'' then (if neg then NegInf else PosInf)
      else case parseDecimal s of
             None \<Rightarrow> NaN
           | Some (a, k) \<Rightarrow>
               if 0 \<le> k then roundToDouble neg (a * 10 ^ nat k) 1
               else roundToDouble neg a (10 ^ nat (- k)))"

definition nonDecimal :: "string \<Rightarrow> jsnum option" where
  "nonDecimal s =
     (case s of
        z # x # ds \<Rightarrow>
          if z = CHR ''0'' \<and> ds \<noteq> [] then
            (if (x = CHR ''x'' \<or> x = CHR ''X'') \<and> list_all isHexDigit ds
             then Some (roundToDouble False (digitsValue 16 ds) 1)
             else if (x = CHR ''o'' \<or> x = CHR ''O'') \<and> list_all (\<lambda>c. c \<in> set ''01234567'') ds
             then Some (roundToDouble False (digitsValue 8 ds) 1)
             else if (x = CHR ''b'' \<or> x = CHR ''B'') \<and> list_all (\<lambda>c. c \<in> set ''01'') ds
             then Some (roundToDouble False (digitsValue 2 ds) 1)
             else None)
          else None
      | _ \<Rightarrow> None)"

definition StringToNumber :: "string \<Rightarrow> jsnum" where
  "StringToNumber str =
     (let s = trimString str
      in if s = [] then Fin 0
         else case nonDecimal s of
                Some n \<Rightarrow> n
              | None \<Rightarrow>
                  if hd s = CHR ''-'' then decimalValue True (tl s)
                  else if hd s = CHR ''+'' then decimalValue False (tl s)
                  else decimalValue False s)"

subsection \<open>Strings from numbers\<close>

text \<open>\<^verbatim>\<open>Number::toString\<close> of ECMA-262 in base 10: the shortest digit string \<open>s\<close>
  of \<open>k\<close> digits with \<open>s * 10 ^ (n - k)\<close> rounding to the number, the nearest to it if
  there are several, laid out as an integer, a fraction or in exponent notation.\<close>

fun digitString :: "nat \<Rightarrow> int \<Rightarrow> string" where
  "digitString 0 s = []"
| "digitString (Suc k) s = digitString k (s div 10) @ [char_of (48 + s mod 10)]"

fun digitCount :: "nat \<Rightarrow> int \<Rightarrow> nat" where
  "digitCount 0 m = 0"
| "digitCount (Suc f) m = (if m \<le> 0 then 0 else Suc (digitCount f (m div 10)))"

definition numDigits :: "int \<Rightarrow> nat" where
  "numDigits m = digitCount (nat (bitlen m)) m"

definition decimalString :: "int \<Rightarrow> string" where
  "decimalString m = (if m \<le> 0 then ''0'' else digitString (numDigits m) m)"

text \<open>The decimal exponent \<open>n\<close> of a positive rational \<open>a / b\<close>: \<open>10 ^ (n - 1) \<le> a / b < 10 ^ n\<close>.\<close>

definition decimalExponent :: "int \<Rightarrow> int \<Rightarrow> int" where
  "decimalExponent a b =
     (if b \<le> a then int (numDigits (a div b))
      else (let d = numDigits (b div a)
            in if b = a * 10 ^ (d - 1) then 2 - int d else 1 - int d))"

text \<open>The candidates with \<open>k\<close> digits for the value \<open>a / b\<close>: the result is \<open>(n, s)\<close>.\<close>

definition digitsCandidate :: "int \<Rightarrow> int \<Rightarrow> int \<Rightarrow> nat \<Rightarrow> (int \<times> int) option" where
  "digitsCandidate a b n0 k =
     (let ex = n0 - int k;
          N = (if ex < 0 then a * 10 ^ nat (- ex) else a);
          D = (if ex < 0 then b else b * 10 ^ nat ex);
          lo = N div D;
          hi = lo + 1;
          x = roundToDouble False a b;
          rnd = (\<lambda>s. if ex < 0 then roundToDouble False s (10 ^ nat (- ex))
                     else roundToDouble False (s * 10 ^ nat ex) 1);
          okLo = (rnd lo = x);
          okHi = (rnd hi = x);
          useHi = (okHi \<and> (\<not> okLo \<or> D < 2 * (N mod D) \<or> (D = 2 * (N mod D) \<and> odd lo)))
      in if useHi then (if hi = 10 ^ k then Some (n0 + 1, 10 ^ (k - 1)) else Some (n0, hi))
         else if okLo then Some (n0, lo)
         else None)"

fun shortestDigits :: "int \<Rightarrow> int \<Rightarrow> int \<Rightarrow> nat list \<Rightarrow> (int \<times> nat \<times> int)" where
  "shortestDigits a b n0 [] = (n0, 0, 0)"
| "shortestDigits a b n0 (k # ks) =
     (case digitsCandidate a b n0 k of
        Some (n, s) \<Rightarrow> (n, k, s)
      | None \<Rightarrow> shortestDigits a b n0 ks)"

definition positiveToString :: "rat \<Rightarrow> string" where
  "positiveToString x =
     (case quotient_of x of (a, b) \<Rightarrow>
      (case shortestDigits a b (decimalExponent a b) [1 ..< 18] of (n, k, s) \<Rightarrow>
       (let ds = digitString k s
        in if int k \<le> n \<and> n \<le> 21 then ds @ replicate (nat (n - int k)) CHR ''0''
           else if 0 < n \<and> n \<le> 21 then take (nat n) ds @ ''.'' @ drop (nat n) ds
           else if - 6 < n \<and> n \<le> 0 then ''0.'' @ replicate (nat (- n)) CHR ''0'' @ ds
           else (let e = n - 1;
                     ex = (if e < 0 then ''-'' else ''+'') @ decimalString (abs e)
                 in if k = 1 then ds @ ''e'' @ ex
                    else take 1 ds @ ''.'' @ drop 1 ds @ ''e'' @ ex))))"

fun Number_toString :: "jsnum \<Rightarrow> string" where
  "Number_toString NaN = ''NaN''"
| "Number_toString PosInf = ''Infinity''"
| "Number_toString NegInf = ''-Infinity''"
| "Number_toString NegZero = ''0''"
| "Number_toString (Fin x) =
     (if x = 0 then ''0''
      else if x < 0 then ''-'' @ positiveToString (- x)
      else positiveToString x)"

subsection \<open>Regular expressions\<close>

text \<open>Regular expressions without flags: literal characters, the dot, classes, the escapes
  for classes and control characters, anchors, word boundaries, groups, look-ahead and
  look-behind, alternatives and quantifiers (lazy or not), with the leniencies of the web
  grammar (a lone \<open>]\<close>, \<open>{\<close> or \<open>}\<close> is a literal). Back-references, legacy octal
  escapes and named groups are outside the fragment: the reference host rejects a pattern
  that has one. \<^verbatim>\<open>test\<close> asks whether a match exists, so a match is a set of end
  positions and laziness makes no difference.\<close>

datatype regex =
    Eps
  | Sym "char \<Rightarrow> bool"
  | Bol
  | Eol
  | WordB bool
  | Seq regex regex
  | Alt regex regex
  | Star regex
  | LookAhead bool regex
  | LookBehind bool regex

definition isWordChar :: "char \<Rightarrow> bool" where
  "isWordChar c = (isLower c \<or> isUpper c \<or> isDigit c \<or> c = CHR ''_'')"

definition isLineTerminator :: "char \<Rightarrow> bool" where
  "isLineTerminator c = ((of_char c :: nat) \<in> {10, 13})"

definition wordAt :: "string \<Rightarrow> nat \<Rightarrow> bool" where
  "wordAt s i = (i < length s \<and> isWordChar (s ! i))"

text \<open>The positions where a match of the expression that starts at \<open>i\<close> can end.\<close>

fun ends :: "regex \<Rightarrow> string \<Rightarrow> nat \<Rightarrow> nat list" where
  "ends Eps s i = [i]"
| "ends (Sym P) s i = (if i < length s \<and> P (s ! i) then [Suc i] else [])"
| "ends Bol s i = (if i = 0 then [i] else [])"
| "ends Eol s i = (if i = length s then [i] else [])"
| "ends (WordB b) s i =
     (if (((0 < i \<and> wordAt s (i - 1)) \<noteq> wordAt s i) = b) then [i] else [])"
| "ends (Seq a b) s i = remdups (concat (map (ends b s) (ends a s i)))"
| "ends (Alt a b) s i = remdups (ends a s i @ ends b s i)"
| "ends (Star a) s i =
     fold (\<lambda>_ xs. remdups (xs @ concat (map (ends a s) xs))) [0 ..< length s] [i]"
| "ends (LookAhead pos a) s i = (if (ends a s i \<noteq> []) = pos then [i] else [])"
| "ends (LookBehind pos a) s i =
     (if list_ex (\<lambda>j. i \<in> set (ends a s j)) [0 ..< Suc i] = pos then [i] else [])"

definition regexTest :: "regex \<Rightarrow> string \<Rightarrow> bool" where
  "regexTest r s = list_ex (\<lambda>i. ends r s i \<noteq> []) [0 ..< Suc (length s)]"

text \<open>What follows a backslash, in a class or outside one.\<close>

datatype escape = EChar char | ESet "char \<Rightarrow> bool" | EWordB bool

definition hexValue :: "string \<Rightarrow> nat" where
  "hexValue ds = nat (digitsValue 16 ds)"

definition isLetter :: "char \<Rightarrow> bool" where
  "isLetter c = (isLower c \<or> isUpper c)"

definition parseEscape :: "bool \<Rightarrow> string \<Rightarrow> (escape \<times> string) option" where
  "parseEscape inClass s =
     (case s of
        [] \<Rightarrow> None
      | c # r \<Rightarrow>
          if c = CHR ''d'' then Some (ESet isDigit, r)
          else if c = CHR ''D'' then Some (ESet (\<lambda>x. \<not> isDigit x), r)
          else if c = CHR ''w'' then Some (ESet isWordChar, r)
          else if c = CHR ''W'' then Some (ESet (\<lambda>x. \<not> isWordChar x), r)
          else if c = CHR ''s'' then Some (ESet isSpace, r)
          else if c = CHR ''S'' then Some (ESet (\<lambda>x. \<not> isSpace x), r)
          else if c = CHR ''b'' then Some (if inClass then EChar (char_of (8::nat)) else EWordB True, r)
          else if c = CHR ''B'' then Some (if inClass then EChar c else EWordB False, r)
          else if c = CHR ''t'' then Some (EChar (char_of (9::nat)), r)
          else if c = CHR ''n'' then Some (EChar (char_of (10::nat)), r)
          else if c = CHR ''v'' then Some (EChar (char_of (11::nat)), r)
          else if c = CHR ''f'' then Some (EChar (char_of (12::nat)), r)
          else if c = CHR ''r'' then Some (EChar (char_of (13::nat)), r)
          else if c = CHR ''0'' then
            (if r \<noteq> [] \<and> isDigit (hd r) then None else Some (EChar (char_of (0::nat)), r))
          else if isDigit c then None
          else if c = CHR ''x'' then
            (if 2 \<le> length r \<and> list_all isHexDigit (take 2 r)
             then Some (EChar (char_of (hexValue (take 2 r))), drop 2 r)
             else Some (EChar c, r))
          else if c = CHR ''u'' then
            (if 4 \<le> length r \<and> list_all isHexDigit (take 4 r)
             then Some (if hexValue (take 4 r) < 256 then EChar (char_of (hexValue (take 4 r)))
                        else ESet (\<lambda>x. False), drop 4 r)
             else Some (EChar c, r))
          else if c = CHR ''c'' then
            (if r \<noteq> [] \<and> (isLetter (hd r) \<or> (inClass \<and> (isDigit (hd r) \<or> hd r = CHR ''_'')))
             then Some (EChar (char_of ((of_char (hd r) :: nat) mod 32)), tl r)
             else Some (EChar (CHR 0x5C), s))
          else Some (EChar c, r))"

text \<open>The members of a character class, after the opening bracket and the optional \<open>^\<close>.\<close>

definition classAtom :: "string \<Rightarrow> (escape \<times> string) option" where
  "classAtom s =
     (case s of
        [] \<Rightarrow> None
      | c # r \<Rightarrow> if c = CHR 0x5C then parseEscape True r else Some (EChar c, r))"

definition escapeSet :: "escape \<Rightarrow> char \<Rightarrow> bool" where
  "escapeSet e = (case e of EChar c \<Rightarrow> (\<lambda>x. x = c) | ESet P \<Rightarrow> P | EWordB b \<Rightarrow> (\<lambda>x. False))"

fun classItems :: "nat \<Rightarrow> (char \<Rightarrow> bool) \<Rightarrow> string \<Rightarrow> ((char \<Rightarrow> bool) \<times> string) option" where
  "classItems 0 P s = None"
| "classItems (Suc n) P s =
     (case s of
        [] \<Rightarrow> None
      | c # r \<Rightarrow>
          if c = CHR '']'' then Some (P, r)
          else
            (case classAtom s of
               None \<Rightarrow> None
             | Some (lo, r1) \<Rightarrow>
                 if 2 \<le> length r1 \<and> hd r1 = CHR ''-'' \<and> r1 ! 1 \<noteq> CHR '']'' then
                   (case classAtom (tl r1) of
                      None \<Rightarrow> None
                    | Some (hi, r2) \<Rightarrow>
                        (case (lo, hi) of
                           (EChar a, EChar b) \<Rightarrow>
                             if (of_char b :: nat) < of_char a then None
                             else classItems n
                                    (\<lambda>x. P x \<or> ((of_char a :: nat) \<le> of_char x \<and>
                                                  (of_char x :: nat) \<le> of_char b)) r2
                         | _ \<Rightarrow>
                             classItems n
                               (\<lambda>x. P x \<or> escapeSet lo x \<or> x = CHR ''-'' \<or> escapeSet hi x) r2))
                 else classItems n (\<lambda>x. P x \<or> escapeSet lo x) r1))"

definition parseClass :: "string \<Rightarrow> (regex \<times> string) option" where
  "parseClass s =
     (let neg = (s \<noteq> [] \<and> hd s = CHR ''^'');
          body = (if neg then tl s else s)
      in case classItems (Suc (length body)) (\<lambda>x. False) body of
           None \<Rightarrow> None
         | Some (P, r) \<Rightarrow> Some (Sym (if neg then (\<lambda>x. \<not> P x) else P), r))"

text \<open>Quantifiers. A brace is a quantifier only in the forms \<open>{n}\<close>, \<open>{n,}\<close> and \<open>{n,m}\<close>.\<close>

datatype quantifier = NoQuantifier | Quantifier nat "nat option" string | BadQuantifier

definition braceQuantifier :: "string \<Rightarrow> quantifier" where
  "braceQuantifier s =
     (let ds1 = takeWhile isDigit s;
          r1 = dropWhile isDigit s
      in if ds1 = [] then NoQuantifier
         else
           (case r1 of
              [] \<Rightarrow> NoQuantifier
            | c # r2 \<Rightarrow>
                if c = CHR ''}'' then
                  Quantifier (nat (digitsValue 10 ds1)) (Some (nat (digitsValue 10 ds1))) r2
                else if c = CHR '','' then
                  (let ds2 = takeWhile isDigit r2;
                       r3 = dropWhile isDigit r2
                   in if r3 = [] \<or> hd r3 \<noteq> CHR ''}'' then NoQuantifier
                      else if ds2 = [] then Quantifier (nat (digitsValue 10 ds1)) None (tl r3)
                      else if digitsValue 10 ds2 < digitsValue 10 ds1 then BadQuantifier
                      else Quantifier (nat (digitsValue 10 ds1))
                             (Some (nat (digitsValue 10 ds2))) (tl r3))
                else NoQuantifier))"

definition parseQuantifier :: "string \<Rightarrow> quantifier" where
  "parseQuantifier s =
     (let q = (case s of
                 [] \<Rightarrow> NoQuantifier
               | c # r \<Rightarrow>
                   if c = CHR ''*'' then Quantifier 0 None r
                   else if c = CHR ''+'' then Quantifier 1 None r
                   else if c = CHR ''?'' then Quantifier 0 (Some 1) r
                   else if c = CHR ''{'' then braceQuantifier r
                   else NoQuantifier)
      in case q of
           Quantifier lo hi r \<Rightarrow>
             if r \<noteq> [] \<and> hd r = CHR ''?'' then Quantifier lo hi (tl r) else q
         | _ \<Rightarrow> q)"

fun power_regex :: "nat \<Rightarrow> regex \<Rightarrow> regex \<Rightarrow> regex" where
  "power_regex 0 r tail = tail"
| "power_regex (Suc n) r tail = Seq r (power_regex n r tail)"

definition repeat :: "regex \<Rightarrow> nat \<Rightarrow> nat option \<Rightarrow> regex" where
  "repeat r lo hi =
     (case hi of
        None \<Rightarrow> power_regex lo r (Star r)
      | Some m \<Rightarrow> power_regex lo r (power_regex (m - lo) (Alt r Eps) Eps))"

definition quantified :: "regex \<Rightarrow> string \<Rightarrow> (regex \<times> string) option" where
  "quantified r s =
     (case parseQuantifier s of
        NoQuantifier \<Rightarrow> Some (r, s)
      | Quantifier lo hi rest \<Rightarrow> Some (repeat r lo hi, rest)
      | BadQuantifier \<Rightarrow> None)"

text \<open>An atom that is not a group: a class, an escape, the dot or a literal character.\<close>

definition parseAtom :: "string \<Rightarrow> (regex \<times> string) option" where
  "parseAtom s =
     (case s of
        [] \<Rightarrow> None
      | c # r \<Rightarrow>
          if c = CHR ''['' then
            (case parseClass r of None \<Rightarrow> None | Some (a, rest) \<Rightarrow> quantified a rest)
          else if c = CHR 0x5C then
            (case parseEscape False r of
               None \<Rightarrow> None
             | Some (EWordB b, rest) \<Rightarrow> Some (WordB b, rest)
             | Some (e, rest) \<Rightarrow> quantified (Sym (escapeSet e)) rest)
          else if c = CHR ''.'' then quantified (Sym (\<lambda>x. \<not> isLineTerminator x)) r
          else if c = CHR ''{'' \<and> braceQuantifier r \<noteq> NoQuantifier then None
          else quantified (Sym (\<lambda>x. x = c)) r)"

text \<open>The pattern grammar by recursive descent. The first argument bounds the depth of
  the calls; \<open>parsePattern\<close> starts with four times the length of the pattern, which is
  more than any pattern needs. \<open>None\<close> is a syntax error.\<close>

fun parseDisjunction :: "nat \<Rightarrow> string \<Rightarrow> (regex \<times> string) option"
  and parseAlternative :: "nat \<Rightarrow> regex \<Rightarrow> string \<Rightarrow> (regex \<times> string) option"
  and parseTerm :: "nat \<Rightarrow> string \<Rightarrow> (regex \<times> string) option"
  and parseGroup :: "nat \<Rightarrow> string \<Rightarrow> (regex \<times> string) option" where
  "parseDisjunction 0 s = None"
| "parseDisjunction (Suc n) s =
     (case parseAlternative n Eps s of
        None \<Rightarrow> None
      | Some (a, rest) \<Rightarrow>
          if rest \<noteq> [] \<and> hd rest = CHR ''|'' then
            (case parseDisjunction n (tl rest) of
               None \<Rightarrow> None
             | Some (b, rest') \<Rightarrow> Some (Alt a b, rest'))
          else Some (a, rest))"
| "parseAlternative 0 acc s = None"
| "parseAlternative (Suc n) acc s =
     (if s = [] \<or> hd s = CHR ''|'' \<or> hd s = CHR '')'' then Some (acc, s)
      else case parseTerm n s of
             None \<Rightarrow> None
           | Some (t, rest) \<Rightarrow> parseAlternative n (Seq acc t) rest)"
| "parseTerm 0 s = None"
| "parseTerm (Suc n) s =
     (case s of
        [] \<Rightarrow> None
      | c # r \<Rightarrow>
          if c = CHR ''^'' then Some (Bol, r)
          else if c = CHR ''$'' then Some (Eol, r)
          else if c = CHR ''*'' \<or> c = CHR ''+'' \<or> c = CHR ''?'' then None
          else if c = CHR ''('' then
            (if startsWith r ''?:'' then
               (case parseGroup n (drop 2 r) of
                  None \<Rightarrow> None | Some (a, rest) \<Rightarrow> quantified a rest)
             else if startsWith r ''?='' \<or> startsWith r ''?!'' then
               (case parseGroup n (drop 2 r) of
                  None \<Rightarrow> None
                | Some (a, rest) \<Rightarrow> quantified (LookAhead (startsWith r ''?='') a) rest)
             else if startsWith r ''?<='' \<or> startsWith r ''?<!'' then
               (case parseGroup n (drop 3 r) of
                  None \<Rightarrow> None
                | Some (a, rest) \<Rightarrow> Some (LookBehind (startsWith r ''?<='') a, rest))
             else if startsWith r ''?'' then None
             else
               (case parseGroup n r of
                  None \<Rightarrow> None | Some (a, rest) \<Rightarrow> quantified a rest))
          else parseAtom s)"
| "parseGroup 0 s = None"
| "parseGroup (Suc n) s =
     (case parseDisjunction n s of
        None \<Rightarrow> None
      | Some (a, rest) \<Rightarrow>
          if rest \<noteq> [] \<and> hd rest = CHR '')'' then Some (a, tl rest) else None)"

definition parsePattern :: "string \<Rightarrow> regex option" where
  "parsePattern p =
     (case parseDisjunction (4 * length p + 4) p of
        Some (r, []) \<Rightarrow> Some r
      | _ \<Rightarrow> None)"

definition RegExpCreate :: "string \<Rightarrow> (string \<Rightarrow> bool) option" where
  "RegExpCreate p = map_option regexTest (parsePattern p)"

subsection \<open>JSON and URL\<close>

text \<open>The JSON grammar, as \<^verbatim>\<open>JSON.parse\<close> accepts it: each function returns the input
  left after the construct it reads.\<close>

definition isJsonSpace :: "char \<Rightarrow> bool" where
  "isJsonSpace c = ((of_char c :: nat) \<in> {9, 10, 13, 32})"

definition skipSpace :: "string \<Rightarrow> string" where
  "skipSpace s = dropWhile isJsonSpace s"

text \<open>The rest of the input after a string, from behind its opening quote.\<close>

fun jsonString :: "nat \<Rightarrow> string \<Rightarrow> string option" where
  "jsonString 0 s = None"
| "jsonString (Suc n) s =
     (case s of
        [] \<Rightarrow> None
      | c # r \<Rightarrow>
          if c = CHR 0x22 then Some r
          else if c = CHR 0x5C then
            (case r of
               [] \<Rightarrow> None
             | e # r' \<Rightarrow>
                 if e \<in> set [CHR 0x22, CHR 0x5C, CHR ''/'', CHR ''b'', CHR ''f'', CHR ''n'',
                              CHR ''r'', CHR ''t'']
                 then jsonString n r'
                 else if e = CHR ''u'' \<and> 4 \<le> length r' \<and> list_all isHexDigit (take 4 r')
                 then jsonString n (drop 4 r')
                 else None)
          else if (of_char c :: nat) < 32 then None
          else jsonString n r)"

text \<open>The rest of the input after a number.\<close>

definition jsonNumber :: "string \<Rightarrow> string option" where
  "jsonNumber s =
     (let s1 = (if s \<noteq> [] \<and> hd s = CHR ''-'' then tl s else s);
          ip = takeWhile isDigit s1;
          s2 = dropWhile isDigit s1
      in if ip = [] \<or> (hd ip = CHR ''0'' \<and> length ip > 1) then None
         else
           (let frac = (s2 \<noteq> [] \<and> hd s2 = CHR ''.'');
                fp = (if frac then takeWhile isDigit (tl s2) else []);
                s3 = (if frac then dropWhile isDigit (tl s2) else s2)
            in if frac \<and> fp = [] then None
               else
                 (let ex = (s3 \<noteq> [] \<and> (hd s3 = CHR ''e'' \<or> hd s3 = CHR ''E''));
                      s4 = (if ex then tl s3 else s3);
                      s5 = (if ex \<and> s4 \<noteq> [] \<and> (hd s4 = CHR ''+'' \<or> hd s4 = CHR ''-'')
                            then tl s4 else s4)
                  in if ex then (if takeWhile isDigit s5 = [] then None
                                 else Some (dropWhile isDigit s5))
                     else Some s3)))"

fun jsonValue :: "nat \<Rightarrow> string \<Rightarrow> string option"
  and jsonElements :: "nat \<Rightarrow> string \<Rightarrow> string option"
  and jsonMembers :: "nat \<Rightarrow> string \<Rightarrow> string option" where
  "jsonValue 0 s = None"
| "jsonValue (Suc n) s =
     (case s of
        [] \<Rightarrow> None
      | c # r \<Rightarrow>
          if c = CHR ''{'' then
            (if skipSpace r \<noteq> [] \<and> hd (skipSpace r) = CHR ''}'' then Some (tl (skipSpace r))
             else jsonMembers n r)
          else if c = CHR ''['' then
            (if skipSpace r \<noteq> [] \<and> hd (skipSpace r) = CHR '']'' then Some (tl (skipSpace r))
             else jsonElements n r)
          else if c = CHR 0x22 then jsonString (length r) r
          else if startsWith s ''true'' then Some (drop 4 s)
          else if startsWith s ''false'' then Some (drop 5 s)
          else if startsWith s ''null'' then Some (drop 4 s)
          else jsonNumber s)"
| "jsonElements 0 s = None"
| "jsonElements (Suc n) s =
     (case jsonValue n (skipSpace s) of
        None \<Rightarrow> None
      | Some r \<Rightarrow>
          (case skipSpace r of
             [] \<Rightarrow> None
           | c # r' \<Rightarrow>
               if c = CHR '']'' then Some r'
               else if c = CHR '','' then jsonElements n r'
               else None))"
| "jsonMembers 0 s = None"
| "jsonMembers (Suc n) s =
     (case skipSpace s of
        [] \<Rightarrow> None
      | q # r \<Rightarrow>
          if q \<noteq> CHR 0x22 then None
          else
            (case jsonString (length r) r of
               None \<Rightarrow> None
             | Some r1 \<Rightarrow>
                 (case skipSpace r1 of
                    [] \<Rightarrow> None
                  | c # r2 \<Rightarrow>
                      if c \<noteq> CHR '':'' then None
                      else
                        (case jsonValue n (skipSpace r2) of
                           None \<Rightarrow> None
                         | Some r3 \<Rightarrow>
                             (case skipSpace r3 of
                                [] \<Rightarrow> None
                              | d # r4 \<Rightarrow>
                                  if d = CHR ''}'' then Some r4
                                  else if d = CHR '','' then jsonMembers n r4
                                  else None)))))"

definition JSONParses :: "string \<Rightarrow> bool" where
  "JSONParses s =
     (case jsonValue (Suc (length s)) (skipSpace s) of
        None \<Rightarrow> False
      | Some r \<Rightarrow> skipSpace r = [])"

text \<open>\<^verbatim>\<open>new URL(value)\<close> without a base: the value needs a scheme, and a scheme of the
  web (http, https, ws, wss, ftp) needs a host. This is an approximation of the URL
  standard: the checks of the host (forbidden characters other than the space, IPv4 and
  IPv6 literals, internationalised names) and of the port are not modelled.\<close>

definition isSchemeChar :: "char \<Rightarrow> bool" where
  "isSchemeChar c = (isLetter c \<or> isDigit c \<or> c = CHR ''+'' \<or> c = CHR ''-'' \<or> c = CHR ''.'')"

definition isC0OrSpace :: "char \<Rightarrow> bool" where
  "isC0OrSpace c = ((of_char c :: nat) \<le> 32)"

definition specialSchemes :: "string list" where
  "specialSchemes = [''http'', ''https'', ''ws'', ''wss'', ''ftp'']"

definition URLParses :: "string \<Rightarrow> bool" where
  "URLParses v =
     (let s = filter (\<lambda>c. (of_char c :: nat) \<notin> {9, 10, 13})
                (rev (dropWhile isC0OrSpace (rev (dropWhile isC0OrSpace v))));
          scheme = takeWhile isSchemeChar s;
          rest = dropWhile isSchemeChar s
      in scheme \<noteq> [] \<and> isLetter (hd scheme) \<and> rest \<noteq> [] \<and> hd rest = CHR '':'' \<and>
         (toLowerCase scheme \<in> set specialSchemes \<longrightarrow>
            (let auth = takeWhile (\<lambda>c. c \<notin> set [CHR ''/'', CHR 0x5C, CHR ''?'', CHR ''#''])
                          (dropWhile (\<lambda>c. c = CHR ''/'' \<or> c = CHR 0x5C) (tl rest))
             in auth \<noteq> [] \<and> CHR '' '' \<notin> set auth)))"

text \<open>The string of a member of \<^verbatim>\<open>Object.prototype\<close>, as V8 gives it: the source
  text of a built-in function shows its name (the constructor is the function
  \<^verbatim>\<open>Object\<close>), the prototype object is an object without a tag.\<close>

definition memberText :: "string \<Rightarrow> string" where
  "memberText n =
     (if n = ''__proto__'' then ''[object Object]''
      else ''function '' @ (if n = ''constructor'' then ''Object'' else n) @
           ''() { [native code] }'')"

definition referenceHost :: host where
  "referenceHost =
     \<lparr>Number = StringToNumber, NumberToString = Number_toString, RegExp = RegExpCreate,
      URL = URLParses, JSON_parse = JSONParses, MemberToString = memberText\<rparr>"

section \<open>Examples\<close>

text \<open>A variable of a type that is required and declares nothing else.\<close>

definition plain :: "VariableType \<Rightarrow> Variable" where
  "plain t =
     \<lparr>Variable.type = t, format = None, required = True, default = None, description = None,
      enum = None, pattern = None, min_num = None, max_num = None, minLength = None,
      maxLength = None\<rparr>"

section \<open>One variable: what each branch returns\<close>

text \<open>Every error a check returns carries the name of the variable and the kind of the
  check; a warning is only ever the notice that the default was applied.\<close>

lemma enumValidation_error:
  "enumValidation name v spec = Some e \<Longrightarrow>
     ValidationError.variable e = name \<and> ValidationError.type e = invalid_enum"
  by (auto simp: enumValidation_def split: option.splits if_splits)

lemma formatValidation_error:
  "formatValidation h name v spec = Inr (Some e) \<Longrightarrow>
     ValidationError.variable e = name \<and> ValidationError.type e = invalid_format"
  by (auto simp: formatValidation_def Let_def split: option.splits if_splits sum.splits)

lemma rangeValidation_error:
  "rangeValidation h name c spec = Some e \<Longrightarrow>
     ValidationError.variable e = name \<and> ValidationError.type e = invalid_range"
  by (auto simp: rangeValidation_def Let_def
           split: option.splits if_splits VariableType.splits jsval.splits)

lemma lengthValidation_error:
  "lengthValidation h name c spec = Some e \<Longrightarrow>
     ValidationError.variable e = name \<and> ValidationError.type e = invalid_range"
  by (auto simp: lengthValidation_def Let_def split: option.splits if_splits VariableType.splits)

lemma patternValidation_error:
  "patternValidation h name v spec = Some e \<Longrightarrow>
     ValidationError.variable e = name \<and> ValidationError.type e = invalid_format"
  by (auto simp: patternValidation_def split: option.splits if_splits)

lemmas block_errors = enumValidation_error formatValidation_error rangeValidation_error
  lengthValidation_error patternValidation_error

lemma validateMissing_cases:
  "validateMissing h name spec =
     (case default spec of
        Some d \<Rightarrow> \<lparr>error = None,
                   warning = Some \<lparr>variable = name,
                                   message = ''Using default value: '' @ ToString h d,
                                   type = default_applied\<rparr>,
                   parsed = Some d\<rparr>
      | None \<Rightarrow> if required spec
                then failed \<lparr>ValidationError.variable = name,
                             message = ''Required variable is missing'',
                             type = missing, expected = None, received = None\<rparr>
                else \<lparr>error = None, warning = None, parsed = None\<rparr>)"
  by (simp add: validateMissing_def split: option.splits)

text \<open>A value that is present gives, when the call returns, either one error, which names
  the variable, or one parsed value.\<close>

lemma validatePresent_result:
  "validatePresent h name v spec = Inr r \<Longrightarrow>
     (\<exists>e. r = failed e \<and> ValidationError.variable e = name) \<or>
     (\<exists>c. r = \<lparr>error = None, warning = None, parsed = Some c\<rparr>)"
  by (auto simp: validatePresent_def dest: block_errors split: sum.splits option.splits if_splits)

lemma validateVariable_error_variable:
  "validateVariable h name v spec = Inr r \<Longrightarrow> VariableResult.error r = Some e \<Longrightarrow>
     ValidationError.variable e = name"
  by (auto simp: validateVariable_def validateMissing_cases failed_def
           dest!: validatePresent_result split: option.splits if_splits)

lemma validateVariable_warning:
  "validateVariable h name v spec = Inr r \<Longrightarrow> warning r = Some w \<Longrightarrow>
     ValidationWarning.variable w = name \<and> ValidationWarning.type w = default_applied"
  by (auto simp: validateVariable_def validateMissing_cases failed_def
           dest!: validatePresent_result split: option.splits if_splits)

lemma validateVariable_exclusive:
  "validateVariable h name v spec = Inr r \<Longrightarrow>
     VariableResult.error r = None \<or> (warning r = None \<and> VariableResult.parsed r = None)"
  by (auto simp: validateVariable_def validateMissing_cases failed_def
           dest!: validatePresent_result split: option.splits if_splits)

section \<open>The two loops\<close>

text \<open>The first loop returns when every call of \<^const>\<open>validateVariable\<close> returns, and
  then it has appended, for each variable in turn, the error and the warning of the
  variable and stored its parsed value under its name. The second loop appends one warning
  per key that is neither a system variable nor declared, in the order of the keys.\<close>

lemma validateEntries_returns:
  "(\<exists>st'. validateEntries h env vs st = Inr st') =
     (\<forall>(name, spec) \<in> set vs. \<exists>r. validateVariable h name (env_get env name) spec = Inr r)"
proof (induction vs arbitrary: st)
  case Nil
  then show ?case by (cases st) auto
next
  case (Cons a vs)
  obtain n sp where a: "a = (n, sp)" by (cases a)
  obtain errs warns vals where st: "st = (errs, warns, vals)" by (cases st)
  show ?case
  proof (cases "validateVariable h n (env_get env n) sp")
    case (Inl x)
    then show ?thesis using a st by auto
  next
    case (Inr r)
    then show ?thesis using a st Cons.IH by (simp add: Let_def)
  qed
qed

lemma validateEntries_other:
  assumes "validateEntries h env vs (errs, warns, vals) = Inr (errs', warns', vals')"
    and "name \<notin> fst ` set vs"
  shows "filter (\<lambda>e. ValidationError.variable e = name) errs' =
           filter (\<lambda>e. ValidationError.variable e = name) errs
       \<and> filter (\<lambda>w. ValidationWarning.variable w = name) warns' =
           filter (\<lambda>w. ValidationWarning.variable w = name) warns
       \<and> vals' name = vals name"
  using assms
proof (induction vs arbitrary: errs warns vals)
  case Nil
  then show ?case by simp
next
  case (Cons a vs)
  obtain n sp where a: "a = (n, sp)" by (cases a)
  from Cons.prems a have n: "n \<noteq> name" and rest: "name \<notin> fst ` set vs" by auto
  from Cons.prems(1) a obtain r where r: "validateVariable h n (env_get env n) sp = Inr r"
    by (auto split: sum.splits)
  let ?errs = "case VariableResult.error r of Some e \<Rightarrow> errs @ [e] | None \<Rightarrow> errs"
  let ?warns = "case warning r of Some w \<Rightarrow> warns @ [w] | None \<Rightarrow> warns"
  let ?vals = "case VariableResult.parsed r of Some p \<Rightarrow> setProperty vals n p | None \<Rightarrow> vals"
  from Cons.prems(1) a r
  have step: "validateEntries h env vs (?errs, ?warns, ?vals) = Inr (errs', warns', vals')"
    by (simp add: Let_def)
  have e: "filter (\<lambda>e. ValidationError.variable e = name) ?errs =
             filter (\<lambda>e. ValidationError.variable e = name) errs"
    using validateVariable_error_variable [OF r] n by (auto split: option.splits)
  have w: "filter (\<lambda>w. ValidationWarning.variable w = name) ?warns =
             filter (\<lambda>w. ValidationWarning.variable w = name) warns"
    using validateVariable_warning [OF r] n by (auto split: option.splits)
  have v: "?vals name = vals name"
    using n by (auto simp: setProperty_def split: option.splits)
  from Cons.IH [OF step rest] show ?case unfolding e w v .
qed

lemma validateEntries_for:
  assumes "validateEntries h env vs (errs, warns, vals) = Inr (errs', warns', vals')"
    and "distinct (map fst vs)" and "(name, spec) \<in> set vs"
  shows "\<exists>r. validateVariable h name (env_get env name) spec = Inr r
       \<and> filter (\<lambda>e. ValidationError.variable e = name) errs' =
           filter (\<lambda>e. ValidationError.variable e = name) errs @
             (case VariableResult.error r of Some e \<Rightarrow> [e] | None \<Rightarrow> [])
       \<and> filter (\<lambda>w. ValidationWarning.variable w = name) warns' =
           filter (\<lambda>w. ValidationWarning.variable w = name) warns @
             (case warning r of Some w \<Rightarrow> [w] | None \<Rightarrow> [])
       \<and> vals' name =
           (case VariableResult.parsed r of
              Some p \<Rightarrow> if name = ''__proto__'' then vals name else Some p
            | None \<Rightarrow> vals name)"
  using assms
proof (induction vs arbitrary: errs warns vals)
  case Nil
  then show ?case by simp
next
  case (Cons a vs)
  obtain n sp where a: "a = (n, sp)" by (cases a)
  from Cons.prems(1) a obtain r where r: "validateVariable h n (env_get env n) sp = Inr r"
    by (auto split: sum.splits)
  let ?errs = "case VariableResult.error r of Some e \<Rightarrow> errs @ [e] | None \<Rightarrow> errs"
  let ?warns = "case warning r of Some w \<Rightarrow> warns @ [w] | None \<Rightarrow> warns"
  let ?vals = "case VariableResult.parsed r of Some p \<Rightarrow> setProperty vals n p | None \<Rightarrow> vals"
  from Cons.prems(1) a r
  have step: "validateEntries h env vs (?errs, ?warns, ?vals) = Inr (errs', warns', vals')"
    by (simp add: Let_def)
  show ?case
  proof (cases "n = name")
    case True
    with Cons.prems a have sp: "sp = spec" and rest: "name \<notin> fst ` set vs"
      by (auto simp: image_iff)
    have e: "filter (\<lambda>e. ValidationError.variable e = name) ?errs =
               filter (\<lambda>e. ValidationError.variable e = name) errs @
                 (case VariableResult.error r of Some e \<Rightarrow> [e] | None \<Rightarrow> [])"
      using validateVariable_error_variable [OF r] True by (auto split: option.splits)
    have w: "filter (\<lambda>w. ValidationWarning.variable w = name) ?warns =
               filter (\<lambda>w. ValidationWarning.variable w = name) warns @
                 (case warning r of Some w \<Rightarrow> [w] | None \<Rightarrow> [])"
      using validateVariable_warning [OF r] True by (auto split: option.splits)
    have v: "?vals name =
               (case VariableResult.parsed r of
                  Some p \<Rightarrow> if name = ''__proto__'' then vals name else Some p
                | None \<Rightarrow> vals name)"
      using True by (auto simp: setProperty_def split: option.splits)
    from validateEntries_other [OF step rest] r True sp show ?thesis
      unfolding e w v by auto
  next
    case False
    with Cons.prems a have rest: "distinct (map fst vs)" "(name, spec) \<in> set vs" by auto
    have e: "filter (\<lambda>e. ValidationError.variable e = name) ?errs =
               filter (\<lambda>e. ValidationError.variable e = name) errs"
      using validateVariable_error_variable [OF r] False by (auto split: option.splits)
    have w: "filter (\<lambda>w. ValidationWarning.variable w = name) ?warns =
               filter (\<lambda>w. ValidationWarning.variable w = name) warns"
      using validateVariable_warning [OF r] False by (auto split: option.splits)
    have v: "?vals name = vals name"
      using False by (auto simp: setProperty_def split: option.splits)
    from Cons.IH [OF step rest] show ?thesis unfolding e w v .
  qed
qed

lemma validateEntries_no_unused:
  assumes "validateEntries h env vs (errs, warns, vals) = Inr (errs', warns', vals')"
  shows "filter (\<lambda>w. ValidationWarning.type w = unused \<and> P w) warns' =
           filter (\<lambda>w. ValidationWarning.type w = unused \<and> P w) warns"
  using assms
proof (induction vs arbitrary: errs warns vals)
  case Nil
  then show ?case by simp
next
  case (Cons a vs)
  obtain n sp where a: "a = (n, sp)" by (cases a)
  from Cons.prems(1) a obtain r where r: "validateVariable h n (env_get env n) sp = Inr r"
    by (auto split: sum.splits)
  let ?errs = "case VariableResult.error r of Some e \<Rightarrow> errs @ [e] | None \<Rightarrow> errs"
  let ?warns = "case warning r of Some w \<Rightarrow> warns @ [w] | None \<Rightarrow> warns"
  let ?vals = "case VariableResult.parsed r of Some p \<Rightarrow> setProperty vals n p | None \<Rightarrow> vals"
  from Cons.prems(1) a r
  have step: "validateEntries h env vs (?errs, ?warns, ?vals) = Inr (errs', warns', vals')"
    by (simp add: Let_def)
  have w: "filter (\<lambda>w. ValidationWarning.type w = unused \<and> P w) ?warns =
             filter (\<lambda>w. ValidationWarning.type w = unused \<and> P w) warns"
    using validateVariable_warning [OF r] by (auto split: option.splits)
  from Cons.IH [OF step] show ?case unfolding w .
qed

lemma unusedScan_eq:
  "unusedScan ks keys warns =
     warns @ map unusedWarning (filter (\<lambda>key. \<not> isSystemEnvVar key \<and> key \<notin> set ks) keys)"
  by (induction keys arbitrary: warns) (auto simp: unusedWarning_def)

text \<open>\<^const>\<open>validate\<close> returns when the first loop does, and its result holds the
  collections of the first loop, the warnings followed in strict mode by those of the
  second.\<close>

lemma validate_Inr:
  "(validate h schema env options = Inr res) =
     (\<exists>errs warns vals.
        validateEntries h env (variables schema) ([], [], Map.empty) = Inr (errs, warns, vals) \<and>
        res = \<lparr>valid = (errs = []), errors = errs,
               warnings = warns @
                 (if strict options = Some True
                  then map unusedWarning
                         (filter (\<lambda>key. \<not> isSystemEnvVar key \<and>
                                         key \<notin> set (Object_keys (variables schema)))
                            (Object_keys env))
                  else []),
               parsed = vals\<rparr>)"
  by (auto simp: validate_def Let_def unusedScan_eq split: sum.splits prod.splits)

lemma validate_returns:
  "(\<exists>res. validate h schema env options = Inr res) =
     (\<forall>(name, spec) \<in> set (variables schema).
        \<exists>r. validateVariable h name (env_get env name) spec = Inr r)"
proof -
  have "(\<exists>res. validate h schema env options = Inr res) =
          (\<exists>st'. validateEntries h env (variables schema) ([], [], Map.empty) = Inr st')"
    by (auto simp: validate_def Let_def split: sum.splits prod.splits)
  then show ?thesis unfolding validateEntries_returns .
qed

lemma validate_for:
  assumes "validate h schema env options = Inr res"
    and "distinct (map fst (variables schema))" and "(name, spec) \<in> set (variables schema)"
  shows "\<exists>r. validateVariable h name (env_get env name) spec = Inr r
       \<and> filter (\<lambda>e. ValidationError.variable e = name) (errors res) =
           (case VariableResult.error r of Some e \<Rightarrow> [e] | None \<Rightarrow> [])
       \<and> filter (\<lambda>w. ValidationWarning.variable w = name) (warnings res) =
           (case warning r of Some w \<Rightarrow> [w] | None \<Rightarrow> [])
       \<and> ValidationResult.parsed res name =
           (if name = ''__proto__'' then None else VariableResult.parsed r)"
proof -
  from assms(1) obtain errs warns vals
    where l: "validateEntries h env (variables schema) ([], [], Map.empty) = Inr (errs, warns, vals)"
      and res: "res = \<lparr>valid = (errs = []), errors = errs,
               warnings = warns @
                 (if strict options = Some True
                  then map unusedWarning
                         (filter (\<lambda>key. \<not> isSystemEnvVar key \<and>
                                         key \<notin> set (Object_keys (variables schema)))
                            (Object_keys env))
                  else []),
               parsed = vals\<rparr>"
    unfolding validate_Inr by blast
  have "name \<in> set (Object_keys (variables schema))"
    using assms(3) by (force simp: Object_keys_def)
  then have u: "filter (\<lambda>w. ValidationWarning.variable w = name)
     (map unusedWarning (filter (\<lambda>key. \<not> isSystemEnvVar key \<and> key \<notin> set (Object_keys (variables schema))) ks)) = []" for ks
    by (induction ks) (auto simp: unusedWarning_def)
  from validateEntries_for [OF l assms(2,3)] show ?thesis
    unfolding res by (auto simp: u split: option.splits)
qed

section \<open>When a call returns\<close>

text \<open>An exception needs a member of \<^verbatim>\<open>Object.prototype\<close>: as the raw value, or as the
  validator found under the name of the format.\<close>

lemma coerceValue_Text: "\<exists>c. coerceValue h (Text s) t = Inr c"
  by (cases t) (simp_all add: Let_def)

lemma formatValidators_table:
  "name \<notin> set objectPrototype \<Longrightarrow> formatValidators h name = Some validator \<Longrightarrow>
     \<exists>ok. validator v = Inr ok"
  by (simp add: formatValidators_def split: if_splits) blast+

lemma formatValidation_returns:
  assumes "\<forall>fmt. format spec = Some fmt \<longrightarrow> fmt \<notin> set objectPrototype"
  shows "\<exists>r. formatValidation h name v spec = Inr r"
proof (cases "format spec")
  case None
  then show ?thesis by (simp add: formatValidation_def)
next
  case (Some fmt)
  with assms have n: "fmt \<notin> set objectPrototype" by simp
  show ?thesis
  proof (cases "formatValidators h fmt")
    case None
    with Some show ?thesis
      by (simp add: formatValidation_def Let_def split: option.splits)
  next
    case (Some validator)
    from formatValidators_table [OF n Some, of v] obtain ok where "validator v = Inr ok" ..
    with Some \<open>format spec = Some fmt\<close> show ?thesis
      by (simp add: formatValidation_def Let_def split: option.splits)
  qed
qed

lemma validateVariable_returns:
  assumes "\<forall>n. v \<noteq> Some (Inherited n)"
    and "\<forall>fmt. format spec = Some fmt \<longrightarrow> fmt \<notin> set objectPrototype"
  shows "\<exists>r. validateVariable h name v spec = Inr r"
proof (cases v)
  case None
  then show ?thesis by (simp add: validateVariable_def)
next
  case (Some raw)
  with assms(1) obtain s where raw: "raw = Text s" by (cases raw) auto
  obtain c where c: "coerceValue h (Text s) (Variable.type spec) = Inr c"
    using coerceValue_Text by blast
  obtain f where f: "formatValidation h name (Text s) spec = Inr f"
    using formatValidation_returns [OF assms(2)] by blast
  show ?thesis using Some raw c f
    by (simp add: validateVariable_def validatePresent_def split: option.splits)
qed

lemma env_get_own:
  "name \<notin> set objectPrototype \<Longrightarrow> env_get env name \<noteq> Some (Inherited n)"
  by (auto simp: env_get_def split: option.splits)

lemma validate_returns_plain:
  assumes "\<forall>(name, spec) \<in> set (variables schema).
             name \<notin> set objectPrototype \<and>
             (\<forall>fmt. format spec = Some fmt \<longrightarrow> fmt \<notin> set objectPrototype)"
  shows "\<exists>res. validate h schema env options = Inr res"
  unfolding validate_returns
  using assms validateVariable_returns env_get_own by fastforce

text \<open>The format \<^verbatim>\<open>valueOf\<close> is not in the table of validators: the lookup finds
  the method the table inherits, and calling it without a receiver throws.\<close>

lemma inherited_format_throws:
  "formatValidation h name (Text s) ((plain TString)\<lparr>format := Some ''valueOf''\<rparr>) =
     Inl TypeError"
  by (simp add: formatValidation_def formatValidators_def inheritedCall_def startsWith_def
        objectPrototype_def plain_def)

section \<open>Running the model\<close>

text \<open>The definitions that evaluate a call of \<^const>\<open>validate\<close> on concrete arguments,
  and values of the reference host.\<close>

lemmas validator_defs =
  validate_def validateVariable_def validateMissing_def validatePresent_def
  enumValidation_def formatValidation_def rangeValidation_def lengthValidation_def
  patternValidation_def failed_def env_get_def Object_keys_def unusedWarning_def plain_def
  setProperty_def objectPrototype_def memberLength_def Let_def

lemma Number_reference [simp]: "Number referenceHost = StringToNumber"
  and RegExp_reference [simp]: "RegExp referenceHost = RegExpCreate"
  and NumberToString_reference [simp]: "NumberToString referenceHost = Number_toString"
  and MemberToString_reference [simp]: "MemberToString referenceHost = memberText"
  by (simp_all add: referenceHost_def)

lemma StringToNumber_examples:
  "StringToNumber ''Infinity'' = PosInf"
  "StringToNumber ''not-a-number'' = NaN"
  "StringToNumber ''8080'' = Fin 8080"
  "StringToNumber ''1'' = Fin 1"
  "StringToNumber ''3'' = Fin 3"
  by code_simp+

lemma StringToNumber_not_numbers:
  "StringToNumber ''one'' = NaN"
  "StringToNumber ''abc'' = NaN"
  by code_simp+

lemma memberText_toString: "memberText ''toString'' = ''function toString() { [native code] }''"
  by (simp add: memberText_def)

lemma StringToNumber_function: "StringToNumber ''function toString() { [native code] }'' = NaN"
  by code_simp

lemma RegExpCreate_unterminated: "RegExpCreate ''('' = None"
  by code_simp

lemma Number_toString_3000: "Number_toString (Fin 3000) = ''3000''"
  by code_simp

lemma isSystemEnvVar_PATH: "isSystemEnvVar ''PATH''"
  by (simp add: isSystemEnvVar_def systemVars_def startsWith_def)

lemma not_isSystemEnvVar_EXTRA: "\<not> isSystemEnvVar ''EXTRA''"
  by (simp add: isSystemEnvVar_def systemVars_def startsWith_def)

lemma not_isSystemEnvVar_DATABASE_URL: "\<not> isSystemEnvVar ''DATABASE_URL''"
  by (simp add: isSystemEnvVar_def systemVars_def startsWith_def)

section \<open>Checks and the fields they read\<close>


lemma lengthValidation_frame:
  "lengthValidation h name c (spec\<lparr>enum := en\<rparr>) = lengthValidation h name c spec"
  "lengthValidation h name c (spec\<lparr>pattern := p\<rparr>) = lengthValidation h name c spec"
  by (cases "valueLength c"; simp add: lengthValidation_def Let_def split: VariableType.splits)+

lemma enum_frame:
  "formatValidation h name v (spec\<lparr>enum := en\<rparr>) = formatValidation h name v spec"
  "rangeValidation h name c (spec\<lparr>enum := en\<rparr>) = rangeValidation h name c spec"
  "patternValidation h name v (spec\<lparr>enum := en\<rparr>) = patternValidation h name v spec"
  by (simp_all add: formatValidation_def rangeValidation_def
        patternValidation_def Let_def cong: if_cong split: VariableType.splits jsval.splits)

lemma pattern_frame:
  "enumValidation name v (spec\<lparr>pattern := p\<rparr>) = enumValidation name v spec"
  "formatValidation h name v (spec\<lparr>pattern := p\<rparr>) = formatValidation h name v spec"
  "rangeValidation h name c (spec\<lparr>pattern := p\<rparr>) = rangeValidation h name c spec"
  by (simp_all add: enumValidation_def formatValidation_def rangeValidation_def
        Let_def cong: if_cong split: VariableType.splits jsval.splits)

lemma validatePresent_cong:
  assumes "Variable.type spec' = Variable.type spec"
    and "enumValidation name v spec' = enumValidation name v spec"
    and "formatValidation h name v spec' = formatValidation h name v spec"
    and "\<And>c. rangeValidation h name c spec' = rangeValidation h name c spec"
    and "\<And>c. lengthValidation h name c spec' = lengthValidation h name c spec"
    and "patternValidation h name v spec' = patternValidation h name v spec"
  shows "validatePresent h name v spec' = validatePresent h name v spec"
  unfolding validatePresent_def assms by (rule refl)

section \<open>Counting the warnings of the second loop\<close>

lemma count_unused:
  "distinct keys \<Longrightarrow>
   length (filter (\<lambda>w. ValidationWarning.type w = unused \<and> ValidationWarning.variable w = key)
             (map unusedWarning (filter P keys))) =
     (if key \<in> set keys \<and> P key then 1 else 0)"
  by (induction keys) (auto simp: unusedWarning_def)

text \<open>Whenever \<^const>\<open>validate\<close> returns a result, which it does for every schema
  whose names and formats are not names of members of \<^verbatim>\<open>Object.prototype\<close>: in
  strict mode every key of the environment that the schema does not declare and that is not
  a system variable has exactly one warning \<open>unused\<close>; a system variable (a key that
  starts with, or is, a name of the fixed list, which has \<^verbatim>\<open>PATH\<close> and
  \<^verbatim>\<open>HOME\<close>) and a declared key have none; and without strict mode no key has
  one. The environment is an object, so its keys are distinct.\<close>

lemma unused_warnings_when_validate_returns:
  assumes "distinct (Object_keys env)"
  shows "(\<forall>res. validate h schema env options = Inr res \<longrightarrow>
            length (filter (\<lambda>w. ValidationWarning.type w = unused \<and>
                                 ValidationWarning.variable w = key) (warnings res)) =
              (if strict options = Some True \<and> key \<in> set (Object_keys env)
                  \<and> key \<notin> set (Object_keys (variables schema)) \<and> \<not> isSystemEnvVar key
               then 1 else 0))
       \<and> ((\<forall>(name, spec) \<in> set (variables schema).
              name \<notin> set objectPrototype \<and>
              (\<forall>fmt. format spec = Some fmt \<longrightarrow> fmt \<notin> set objectPrototype)) \<longrightarrow>
            (\<exists>res. validate h schema env options = Inr res))
       \<and> isSystemEnvVar key = (\<exists>prefix \<in> set systemVars. startsWith key prefix)
       \<and> ''PATH'' \<in> set systemVars \<and> ''HOME'' \<in> set systemVars"
proof (intro conjI allI impI)
  fix res
  assume res: "validate h schema env options = Inr res"
  let ?mine = "\<lambda>w. ValidationWarning.type w = unused \<and> ValidationWarning.variable w = key"
  let ?extra = "filter (\<lambda>key. \<not> isSystemEnvVar key \<and> key \<notin> set (Object_keys (variables schema)))
                  (Object_keys env)"
  from res obtain errs warns vals
    where l: "validateEntries h env (variables schema) ([], [], Map.empty) = Inr (errs, warns, vals)"
      and w: "warnings res = warns @ (if strict options = Some True then map unusedWarning ?extra else [])"
    unfolding validate_Inr by auto
  have n: "filter ?mine warns = []"
    using validateEntries_no_unused [OF l, of "\<lambda>w. ValidationWarning.variable w = key"] by simp
  have c: "length (filter ?mine (map unusedWarning ?extra)) =
             (if key \<in> set (Object_keys env) \<and>
                 (\<not> isSystemEnvVar key \<and> key \<notin> set (Object_keys (variables schema)))
              then 1 else 0)"
    by (rule count_unused [OF assms])
  have "length (filter ?mine (warnings res)) =
          (if strict options = Some True then length (filter ?mine (map unusedWarning ?extra))
           else 0)"
    unfolding w using n by simp
  then show "length (filter ?mine (warnings res)) =
          (if strict options = Some True \<and> key \<in> set (Object_keys env)
              \<and> key \<notin> set (Object_keys (variables schema)) \<and> \<not> isSystemEnvVar key
           then 1 else 0)"
    unfolding c by auto
next
  assume "\<forall>(name, spec) \<in> set (variables schema).
            name \<notin> set objectPrototype \<and>
            (\<forall>fmt. format spec = Some fmt \<longrightarrow> fmt \<notin> set objectPrototype)"
  then show "\<exists>res. validate h schema env options = Inr res"
    by (rule validate_returns_plain)
next
  show "isSystemEnvVar key = (\<exists>prefix \<in> set systemVars. startsWith key prefix)"
    by (auto simp: isSystemEnvVar_def list_ex_iff startsWith_def intro: bexI [where x = key])
next
  show "''PATH'' \<in> set systemVars" by (simp add: systemVars_def)
next
  show "''HOME'' \<in> set systemVars" by (simp add: systemVars_def)
qed

section \<open>A value that the lookup does not find\<close>

text \<open>When the lookup \<^verbatim>\<open>env[name]\<close> gives \<^verbatim>\<open>undefined\<close> or the empty string and the
  call returns, a variable with a default has the warning \<open>default_applied\<close> and its
  default as parsed value, whatever its checks are, and a required variable without a
  default has the error \<open>missing\<close>. The lookup gives \<^verbatim>\<open>undefined\<close> for a name that
  the environment does not have only if \<^verbatim>\<open>Object.prototype\<close> does not have it either.\<close>

lemma env_get_undefined:
  "(env_get env name = None) =
     (map_of env name = Some None \<or> (map_of env name = None \<and> name \<notin> set objectPrototype))"
  by (auto simp: env_get_def split: option.splits)

lemma lookup_empty_with_default:
  assumes "validate h schema env options = Inr res"
    and "distinct (map fst (variables schema))" and "(name, spec) \<in> set (variables schema)"
    and "default spec = Some d"
    and "env_get env name = None \<or> env_get env name = Some (Text [])"
  shows "filter (\<lambda>w. ValidationWarning.variable w = name) (warnings res) =
           [\<lparr>variable = name, message = ''Using default value: '' @ ToString h d,
             type = default_applied\<rparr>]
       \<and> filter (\<lambda>e. ValidationError.variable e = name) (errors res) = []
       \<and> ValidationResult.parsed res name = (if name = ''__proto__'' then None else Some d)"
proof -
  have "validateVariable h name (env_get env name) spec =
          Inr \<lparr>error = None,
               warning = Some \<lparr>variable = name,
                               message = ''Using default value: '' @ ToString h d,
                               type = default_applied\<rparr>,
               parsed = Some d\<rparr>"
    using assms(4,5) by (auto simp: validateVariable_def validateMissing_cases)
  with validate_for [OF assms(1-3)] show ?thesis by auto
qed

lemma lookup_empty_without_default:
  assumes "validate h schema env options = Inr res"
    and "distinct (map fst (variables schema))" and "(name, spec) \<in> set (variables schema)"
    and "required spec" and "default spec = None"
    and "env_get env name = None \<or> env_get env name = Some (Text [])"
  shows "filter (\<lambda>e. ValidationError.variable e = name) (errors res) =
           [\<lparr>ValidationError.variable = name, message = ''Required variable is missing'',
             type = missing, expected = None, received = None\<rparr>]
       \<and> filter (\<lambda>w. ValidationWarning.variable w = name) (warnings res) = []
       \<and> ValidationResult.parsed res name = None"
proof -
  have "validateVariable h name (env_get env name) spec =
          Inr (failed \<lparr>ValidationError.variable = name,
                  message = ''Required variable is missing'',
                  type = missing, expected = None, received = None\<rparr>)"
    using assms(4-6) by (auto simp: validateVariable_def validateMissing_cases)
  with validate_for [OF assms(1-3)] show ?thesis by (auto simp: failed_def)
qed

section \<open>Properties of the validator\<close>




text \<open>Claim C2 fails on the code. The variable \<^verbatim>\<open>constructor\<close> is required and has no
  default, and the environment is empty. The lookup \<^verbatim>\<open>env[name]\<close> finds the function
  that every plain object inherits under this name, so the branch for a missing value is
  not taken: there is no error \<open>missing\<close>, the result is valid, and the inherited
  function is the parsed value.\<close>

theorem inherited_member_is_not_missing:
  "required (plain TString) \<and> default (plain TString) = None \<and>
   map_of ([] :: Env) ''constructor'' = None \<and>
   validate referenceHost \<lparr>schema_url = None, variables = [(''constructor'', plain TString)]\<rparr>
     [] \<lparr>strict = None\<rparr> =
     Inr \<lparr>valid = True, errors = [], warnings = [],
          parsed = [''constructor'' \<mapsto> Member ''constructor'']\<rparr>"
  by (simp add: validator_defs)

text \<open>Claim C3 fails on the code, by the same lookup. The variable \<^verbatim>\<open>constructor\<close>
  declares the default \<^verbatim>\<open>d\<close> and the environment is empty: there is no warning
  \<open>default_applied\<close>, and the parsed value is the inherited function, not the default.\<close>

theorem inherited_member_gets_no_default:
  "map_of ([] :: Env) ''constructor'' = None \<and>
   validate referenceHost
     \<lparr>schema_url = None,
      variables = [(''constructor'', (plain TString)\<lparr>default := Some (Str ''d'')\<rparr>)]\<rparr>
     [] \<lparr>strict = None\<rparr> =
     Inr \<lparr>valid = True, errors = [], warnings = [],
          parsed = [''constructor'' \<mapsto> Member ''constructor'']\<rparr>"
  by (simp add: validator_defs)

text \<open>Claim C4. When \<^const>\<open>validate\<close> returns, its result is valid exactly when its
  list of errors is empty, whatever the warnings and the options are, and
  \<^const>\<open>isValid\<close> returns this boolean; when \<^const>\<open>validate\<close> throws, under any
  options, \<^const>\<open>isValid\<close> throws the same exception.\<close>

theorem valid_iff_no_errors:
  "(case validate h schema env options of
      Inl x \<Rightarrow> isValid h schema env = Inl x
    | Inr result \<Rightarrow>
        valid result = (errors result = []) \<and> isValid h schema env = Inr (valid result))"
  by (auto simp: validate_def isValid_def Let_def split: sum.splits prod.splits)

theorem valid_iff_no_errors_witness:
  "map_sum id valid (validate referenceHost
        \<lparr>schema_url = None, variables = [(''KEY'', plain TString)]\<rparr> []
        \<lparr>strict = Some True\<rparr>) = Inr False
   \<and> isValid referenceHost \<lparr>schema_url = None, variables = [(''KEY'', plain TString)]\<rparr> [] =
       Inr False
   \<and> isValid referenceHost \<lparr>schema_url = None, variables = [(''KEY'', plain TString)]\<rparr>
       [(''KEY'', Some ''value'')] = Inr True
   \<and> isValid referenceHost
       \<lparr>schema_url = None,
        variables = [(''KEY'', (plain TString)\<lparr>format := Some ''valueOf''\<rparr>)]\<rparr>
       [(''KEY'', Some ''value'')] = Inl TypeError"
  using valid_iff_no_errors
    [of referenceHost "\<lparr>schema_url = None, variables = [(''KEY'', plain TString)]\<rparr>" "[]"
        "\<lparr>strict = Some True\<rparr>"]
    valid_iff_no_errors
    [of referenceHost "\<lparr>schema_url = None, variables = [(''KEY'', plain TString)]\<rparr>"
        "[(''KEY'', Some ''value'')]" "\<lparr>strict = Some True\<rparr>"]
    valid_iff_no_errors
    [of referenceHost
        "\<lparr>schema_url = None,
          variables = [(''KEY'', (plain TString)\<lparr>format := Some ''valueOf''\<rparr>)]\<rparr>"
        "[(''KEY'', Some ''value'')]" "\<lparr>strict = Some True\<rparr>"]
  by (simp add: validator_defs formatValidators_def inheritedCall_def startsWith_def)

text \<open>Claim C5, as stated, fails: it says that a raw value that is not a member of a
  non-empty enum gives the error \<open>invalid_enum\<close>. Coercion runs before the enum check
  and returns first: for the type \<^verbatim>\<open>number\<close> and the enum of \<^verbatim>\<open>"1"\<close> and \<^verbatim>\<open>"2"\<close> the raw
  value \<^verbatim>\<open>one\<close> is not a member, and the error is \<open>invalid_type\<close>.\<close>

theorem enum_check_after_coercion:
  "''one'' \<notin> set [''1'', ''2''] \<and>
   validateVariable referenceHost ''LEVEL'' (Some (Text ''one''))
     ((plain TNumber)\<lparr>enum := Some [''1'', ''2'']\<rparr>) =
     Inr (failed \<lparr>ValidationError.variable = ''LEVEL'',
             message = ''Cannot convert '' @ dquote @ ''one'' @ dquote @ '' to number'',
             type = invalid_type, expected = Some ''number'', received = Some (Str ''one'')\<rparr>)"
  by (simp add: validator_defs StringToNumber_not_numbers)

text \<open>Claim C5, amended. The enum check compares the raw string, not the coerced value,
  with the members: for a non-empty enum and a present raw value that coercion accepts, the
  check passes if and only if the raw string is one of the members; then the result is the
  one of the same variable without the enum, and otherwise it is the error
  \<open>invalid_enum\<close>, its expected value the members joined by \<^verbatim>\<open> | \<close>. The type
  \<^verbatim>\<open>number\<close> with the enum of \<^verbatim>\<open>"1"\<close> and \<^verbatim>\<open>"2"\<close> accepts the raw value \<^verbatim>\<open>1\<close>.\<close>

theorem enum_check_on_raw_string:
  assumes "enum spec = Some members" and "members \<noteq> []" and "v \<noteq> []"
    and "coerceValue h (Text v) (Variable.type spec) = Inr c" and "success c"
  shows "(enumValidation name (Text v) spec = None) = (v \<in> set members)
       \<and> (v \<in> set members \<longrightarrow>
            validateVariable h name (Some (Text v)) spec =
              validateVariable h name (Some (Text v)) (spec\<lparr>enum := None\<rparr>))
       \<and> (v \<notin> set members \<longrightarrow>
            validateVariable h name (Some (Text v)) spec =
              Inr (failed \<lparr>ValidationError.variable = name,
                      message = ''Value must be one of: '' @ join '', '' members,
                      type = invalid_enum, expected = Some (join '' | '' members),
                      received = Some (Str v)\<rparr>))"
proof -
  have e: "enumValidation name (Text v) spec =
             (if v \<in> set members then None
              else Some \<lparr>ValidationError.variable = name,
                         message = ''Value must be one of: '' @ join '', '' members,
                         type = invalid_enum, expected = Some (join '' | '' members),
                         received = Some (Str v)\<rparr>)"
    using assms(1,2) by (simp add: enumValidation_def)
  have n: "enumValidation name (Text v) (spec\<lparr>enum := None\<rparr>) = None"
    by (simp add: enumValidation_def)
  have "v \<in> set members \<Longrightarrow>
          validatePresent h name (Text v) (spec\<lparr>enum := None\<rparr>) =
          validatePresent h name (Text v) spec"
    by (rule validatePresent_cong) (simp_all add: e n enum_frame lengthValidation_frame)
  moreover have "v \<notin> set members \<Longrightarrow>
          validatePresent h name (Text v) spec =
            Inr (failed \<lparr>ValidationError.variable = name,
                    message = ''Value must be one of: '' @ join '', '' members,
                    type = invalid_enum, expected = Some (join '' | '' members),
                    received = Some (Str v)\<rparr>)"
    using assms(4,5) by (simp add: validatePresent_def e)
  ultimately show ?thesis
    using assms(3) by (simp add: validateVariable_def e)
qed

theorem enum_check_on_raw_string_witness:
  "validateVariable referenceHost ''LEVEL'' (Some (Text ''1''))
     ((plain TNumber)\<lparr>enum := Some [''1'', ''2'']\<rparr>) =
     Inr \<lparr>error = None, warning = None, parsed = Some (Num (Fin 1))\<rparr>
   \<and> validateVariable referenceHost ''LEVEL'' (Some (Text ''3''))
       ((plain TNumber)\<lparr>enum := Some [''1'', ''2'']\<rparr>) =
       Inr (failed \<lparr>ValidationError.variable = ''LEVEL'',
               message = ''Value must be one of: 1, 2'',
               type = invalid_enum, expected = Some ''1 | 2'', received = Some (Str ''3'')\<rparr>)"
  using enum_check_on_raw_string
      [of "(plain TNumber)\<lparr>enum := Some [''1'', ''2'']\<rparr>" "[''1'', ''2'']" "''1''"
          referenceHost "\<lparr>success = True, value = Num (Fin 1), error = None\<rparr>" "''LEVEL''"]
    enum_check_on_raw_string
      [of "(plain TNumber)\<lparr>enum := Some [''1'', ''2'']\<rparr>" "[''1'', ''2'']" "''3''"
          referenceHost "\<lparr>success = True, value = Num (Fin 3), error = None\<rparr>" "''LEVEL''"]
  by (simp add: validator_defs StringToNumber_examples)

text \<open>Claim C6, as stated, fails: it says that every present raw value gives the error
  \<open>invalid_format\<close> when the format is \<^verbatim>\<open>regex:\<close> followed by a pattern that does not
  compile. Coercion and the enum check run before the format check and return first: for
  the type \<^verbatim>\<open>number\<close>, the format \<^verbatim>\<open>regex:(\<close> and the raw value \<^verbatim>\<open>abc\<close> the error
  is \<open>invalid_type\<close>.\<close>

theorem uncompilable_format_after_coercion:
  "startsWith ''regex:('' ''regex:'' \<and> RegExp referenceHost (drop 6 ''regex:('') = None \<and>
   validateVariable referenceHost ''COUNT'' (Some (Text ''abc''))
     ((plain TNumber)\<lparr>format := Some ''regex:(''\<rparr>) =
     Inr (failed \<lparr>ValidationError.variable = ''COUNT'',
             message = ''Cannot convert '' @ dquote @ ''abc'' @ dquote @ '' to number'',
             type = invalid_type, expected = Some ''number'', received = Some (Str ''abc'')\<rparr>)"
  by (simp add: validator_defs StringToNumber_not_numbers RegExpCreate_unterminated startsWith_def)

text \<open>Claim C6, amended. A pattern that does not compile is handled in two ways. In the
  format, after \<^verbatim>\<open>regex:\<close>, it gives the error \<open>invalid_format\<close> whose message names
  the pattern, for every present raw value that passes coercion and the enum check. In the
  property \<^verbatim>\<open>pattern\<close> it is skipped without an error: the result, for every raw value,
  is the one of the same variable without the pattern.\<close>

theorem uncompilable_regex_asymmetry:
  "(v \<noteq> [] \<and> coerceValue h (Text v) (Variable.type spec) = Inr c \<and> success c \<and>
    (case enum spec of None \<Rightarrow> True | Some members \<Rightarrow> members = [] \<or> v \<in> set members) \<and>
    format spec = Some fmt \<and> startsWith fmt ''regex:'' \<and> RegExp h (drop 6 fmt) = None \<longrightarrow>
      validateVariable h name (Some (Text v)) spec =
        Inr (failed \<lparr>ValidationError.variable = name,
                message = ''Invalid regex pattern: '' @ drop 6 fmt,
                type = invalid_format, expected = None, received = None\<rparr>))
   \<and> (pattern spec = Some pat \<and> RegExp h pat = None \<longrightarrow>
      validateVariable h name raw spec = validateVariable h name raw (spec\<lparr>pattern := None\<rparr>))"
proof (intro conjI impI)
  assume a: "v \<noteq> [] \<and> coerceValue h (Text v) (Variable.type spec) = Inr c \<and> success c \<and>
    (case enum spec of None \<Rightarrow> True | Some members \<Rightarrow> members = [] \<or> v \<in> set members) \<and>
    format spec = Some fmt \<and> startsWith fmt ''regex:'' \<and> RegExp h (drop 6 fmt) = None"
  then have "fmt \<noteq> []" by (auto simp: startsWith_def)
  with a have f: "formatValidation h name (Text v) spec =
      Inr (Some \<lparr>ValidationError.variable = name,
            message = ''Invalid regex pattern: '' @ drop 6 fmt,
            type = invalid_format, expected = None, received = None\<rparr>)"
    by (simp add: formatValidation_def)
  from a have e: "enumValidation name (Text v) spec = None"
    by (auto simp: enumValidation_def split: option.splits)
  from a show "validateVariable h name (Some (Text v)) spec =
        Inr (failed \<lparr>ValidationError.variable = name,
                message = ''Invalid regex pattern: '' @ drop 6 fmt,
                type = invalid_format, expected = None, received = None\<rparr>)"
    by (simp add: validateVariable_def validatePresent_def e f)
next
  assume a: "pattern spec = Some pat \<and> RegExp h pat = None"
  then have p: "patternValidation h name u spec = None" for u
    by (simp add: patternValidation_def)
  have n: "patternValidation h name u (spec\<lparr>pattern := None\<rparr>) = None" for u
    by (simp add: patternValidation_def)
  have "validatePresent h name u (spec\<lparr>pattern := None\<rparr>) = validatePresent h name u spec" for u
    by (rule validatePresent_cong) (simp_all add: p n pattern_frame lengthValidation_frame)
  then show "validateVariable h name raw spec = validateVariable h name raw (spec\<lparr>pattern := None\<rparr>)"
    by (cases raw) (simp_all add: validateVariable_def validateMissing_def)
qed

theorem uncompilable_regex_asymmetry_witness:
  "validateVariable referenceHost ''NAME'' (Some (Text ''abc''))
     ((plain TString)\<lparr>format := Some ''regex:(''\<rparr>) =
     Inr (failed \<lparr>ValidationError.variable = ''NAME'', message = ''Invalid regex pattern: ('',
             type = invalid_format, expected = None, received = None\<rparr>)
   \<and> validateVariable referenceHost ''NAME'' (Some (Text ''abc''))
       ((plain TString)\<lparr>pattern := Some ''(''\<rparr>) =
       Inr \<lparr>error = None, warning = None, parsed = Some (Str ''abc'')\<rparr>"
  using uncompilable_regex_asymmetry
      [of "''abc''" referenceHost "(plain TString)\<lparr>format := Some ''regex:(''\<rparr>"
          "\<lparr>success = True, value = Str ''abc'', error = None\<rparr>" "''regex:(''"
          "''NAME''" "''(''" "Some (Text ''abc'')"]
    uncompilable_regex_asymmetry
      [of "''abc''" referenceHost "(plain TString)\<lparr>pattern := Some ''(''\<rparr>"
          "\<lparr>success = True, value = Str ''abc'', error = None\<rparr>" "''regex:(''"
          "''NAME''" "''(''" "Some (Text ''abc'')"]
  by (simp add: validator_defs RegExpCreate_unterminated startsWith_def)

text \<open>Claim C7 fails on the code, by the same lookup. The schema declares the variable
  \<^verbatim>\<open>constructor\<close> of type \<^verbatim>\<open>boolean\<close>, the environment has the one key
  \<^verbatim>\<open>EXTRA\<close>, which is neither declared nor a system variable, and strict mode is
  set. The lookup finds the inherited function, which has no method \<^verbatim>\<open>toLowerCase\<close>:
  coercion throws a \<^verbatim>\<open>TypeError\<close> in the loop over the schema, before the scan of
  the keys, so \<^const>\<open>validate\<close> returns no result and \<^verbatim>\<open>EXTRA\<close> gets no
  warning.\<close>

theorem inherited_member_stops_strict_scan:
  "strict \<lparr>strict = Some True\<rparr> = Some True \<and>
   ''EXTRA'' \<in> set (Object_keys [(''EXTRA'', Some ''y'')]) \<and>
   ''EXTRA'' \<notin> set (Object_keys [(''constructor'', plain TBoolean)]) \<and>
   \<not> isSystemEnvVar ''EXTRA'' \<and>
   validate referenceHost
     \<lparr>schema_url = None, variables = [(''constructor'', plain TBoolean)]\<rparr>
     [(''EXTRA'', Some ''y'')] \<lparr>strict = Some True\<rparr> =
     Inl TypeError"
  by (simp add: validator_defs not_isSystemEnvVar_EXTRA)

text \<open>Claim C8. For every name, raw value and variable the result of
  \<^const>\<open>validateVariable\<close> holds at most one error, one warning and one parsed value
  (each property is present or not), and never an error together with a warning. In the
  result of \<^const>\<open>validate\<close> a declared variable has at most one error and at most one
  warning, never both, and a variable whose result is empty is in none of the three
  collections.\<close>

theorem one_outcome_per_variable:
  assumes "distinct (map fst (variables schema))"
    and "(name, spec) \<in> set (variables schema)"
  shows "(\<forall>r. validateVariable h name v spec = Inr r \<longrightarrow>
            VariableResult.error r = None \<or> warning r = None)
       \<and> (\<forall>res. validate h schema env options = Inr res \<longrightarrow>
            length (filter (\<lambda>e. ValidationError.variable e = name) (errors res)) \<le> 1
          \<and> length (filter (\<lambda>w. ValidationWarning.variable w = name) (warnings res)) \<le> 1
          \<and> (filter (\<lambda>e. ValidationError.variable e = name) (errors res) = []
               \<or> filter (\<lambda>w. ValidationWarning.variable w = name) (warnings res) = [])
          \<and> (validateVariable h name (env_get env name) spec =
                Inr \<lparr>error = None, warning = None, parsed = None\<rparr> \<longrightarrow>
              filter (\<lambda>e. ValidationError.variable e = name) (errors res) = []
              \<and> filter (\<lambda>w. ValidationWarning.variable w = name) (warnings res) = []
              \<and> ValidationResult.parsed res name = None))"
proof -
  have one: "VariableResult.error r = None \<or> warning r = None"
    if r: "validateVariable h name v spec = Inr r" for r
    using validateVariable_exclusive [OF r] by auto
  have all: "length (filter (\<lambda>e. ValidationError.variable e = name) (errors res)) \<le> 1
          \<and> length (filter (\<lambda>w. ValidationWarning.variable w = name) (warnings res)) \<le> 1
          \<and> (filter (\<lambda>e. ValidationError.variable e = name) (errors res) = []
               \<or> filter (\<lambda>w. ValidationWarning.variable w = name) (warnings res) = [])
          \<and> (validateVariable h name (env_get env name) spec =
                Inr \<lparr>error = None, warning = None, parsed = None\<rparr> \<longrightarrow>
              filter (\<lambda>e. ValidationError.variable e = name) (errors res) = []
              \<and> filter (\<lambda>w. ValidationWarning.variable w = name) (warnings res) = []
              \<and> ValidationResult.parsed res name = None)"
    if res: "validate h schema env options = Inr res" for res
  proof -
    from validate_for [OF res assms] obtain r
      where r: "validateVariable h name (env_get env name) spec = Inr r"
        and e: "filter (\<lambda>e. ValidationError.variable e = name) (errors res) =
                  (case VariableResult.error r of Some e \<Rightarrow> [e] | None \<Rightarrow> [])"
        and w: "filter (\<lambda>w. ValidationWarning.variable w = name) (warnings res) =
                  (case warning r of Some w \<Rightarrow> [w] | None \<Rightarrow> [])"
        and p: "ValidationResult.parsed res name =
                  (if name = ''__proto__'' then None else VariableResult.parsed r)"
      by blast
    have x: "VariableResult.error r = None \<or> warning r = None"
      using validateVariable_exclusive [OF r] by auto
    show ?thesis
      unfolding e w p using x r by (auto split: option.splits)
  qed
  from one all show ?thesis by blast
qed

theorem one_outcome_per_variable_witness:
  "(let schema = \<lparr>schema_url = None,
                   variables = [(''DATABASE_URL'', plain TString),
                                (''PORT'', (plain TNumber)\<lparr>required := False,
                                                           default := Some (Num (Fin 3000))\<rparr>),
                                (''DEBUG'', (plain TBoolean)\<lparr>required := False\<rparr>)]\<rparr>
    in \<exists>res. validate referenceHost schema [] \<lparr>strict = Some True\<rparr> = Inr res
       \<and> map ValidationError.variable (errors res) = [''DATABASE_URL'']
       \<and> map ValidationWarning.variable (warnings res) = [''PORT'']
       \<and> ValidationResult.parsed res ''DEBUG'' = None
       \<and> ValidationResult.parsed res ''DATABASE_URL'' = None
       \<and> ValidationResult.parsed res ''PORT'' = Some (Num (Fin 3000)))"
  using one_outcome_per_variable
    [of "\<lparr>schema_url = None,
          variables = [(''DATABASE_URL'', plain TString),
                       (''PORT'', (plain TNumber)\<lparr>required := False,
                                                  default := Some (Num (Fin 3000))\<rparr>),
                       (''DEBUG'', (plain TBoolean)\<lparr>required := False\<rparr>)]\<rparr>"
        "''DEBUG''" "(plain TBoolean)\<lparr>required := False\<rparr>" referenceHost None "[]"
        "\<lparr>strict = Some True\<rparr>"]
  by (simp add: validator_defs)

text \<open>Claim C10 fails on the code, by the same lookup. The variable \<^verbatim>\<open>toString\<close> of
  type \<^verbatim>\<open>number\<close> declares the default \<open>8080\<close> and the environment is empty. The
  inherited function is coerced instead of the default being applied: the result is the
  error \<open>invalid_type\<close>, and the default is not stored.\<close>

theorem inherited_member_is_checked_despite_default:
  "map_of ([] :: Env) ''toString'' = None \<and>
   validate referenceHost
     \<lparr>schema_url = None,
      variables = [(''toString'', (plain TNumber)\<lparr>default := Some (Num (Fin 8080))\<rparr>)]\<rparr>
     [] \<lparr>strict = None\<rparr> =
     Inr \<lparr>valid = False,
          errors = [\<lparr>ValidationError.variable = ''toString'',
                     message = ''Cannot convert '' @ dquote @
                       ''function toString() { [native code] }'' @ dquote @ '' to number'',
                     type = invalid_type, expected = Some ''number'',
                     received = Some (Member ''toString'')\<rparr>],
          warnings = [], parsed = Map.empty\<rparr>"
  by (simp add: validator_defs memberText_toString StringToNumber_function)

end
